theory Spec2Isabelle
  imports Complex_Main "HOL-Library.Log_Nat" "HOL-Library.Multiset" "HOL-Library.Product_Lexorder"
begin

section \<open>ECMAScript Number values\<close>

text \<open>
  The TypeScript type \<open>number\<close> is an IEEE binary64 value.  It is modelled by its
  four kinds of value: not-a-number, the two infinities, and the finite values, the
  latter by the real number they denote.  The results of \<open>+\<close>, \<open>-\<close> and \<open>/\<close> are
  rounded as binary64 arithmetic rounds them: to the nearest value with a significand of
  53 bits, to the one with the even significand when two are equally near, and to an
  infinity when the rounded magnitude reaches \<open>2^1024\<close>.  Two things are not modelled:
  the sign of zero, and the coarser grid of the values below \<open>2^-1022\<close> in magnitude (a
  sum or a difference of two binary64 values that lies in that range is exact on either
  grid, and the quotients that the source computes are zero or above \<open>1e-8\<close> in
  magnitude).  Every test the source makes on a number (\<open>!x\<close>, \<open><\<close>, \<open><=\<close>,
  \<open>isNaN\<close>, \<open>Number.isFinite\<close>) is modelled.
\<close>

datatype number = NaN | PosInf | NegInf | Fin real

fun js_lt :: "number \<Rightarrow> number \<Rightarrow> bool" where
  "js_lt NaN b = False"
| "js_lt a NaN = False"
| "js_lt (Fin x) (Fin y) = (x < y)"
| "js_lt NegInf NegInf = False"
| "js_lt NegInf b = True"
| "js_lt a PosInf = (a \<noteq> PosInf)"
| "js_lt PosInf b = False"
| "js_lt (Fin x) NegInf = False"

definition isNaN :: "number \<Rightarrow> bool" where
  "isNaN a = (a = NaN)"

text \<open>\<open>a <= b\<close> is false when either side is NaN and otherwise the negation of \<open>b < a\<close>.\<close>

definition js_le :: "number \<Rightarrow> number \<Rightarrow> bool" where
  "js_le a b = (\<not> isNaN a \<and> \<not> isNaN b \<and> \<not> js_lt b a)"

fun js_neg :: "number \<Rightarrow> number" where
  "js_neg NaN = NaN"
| "js_neg PosInf = NegInf"
| "js_neg NegInf = PosInf"
| "js_neg (Fin x) = Fin (- x)"

text \<open>Rounding to the nearest integer, to the even one of two that are equally near.\<close>

definition round_even :: "real \<Rightarrow> int" where
  "round_even x =
     (if x - of_int \<lfloor>x\<rfloor> = 1 / 2 then (if even \<lfloor>x\<rfloor> then \<lfloor>x\<rfloor> else \<lfloor>x\<rfloor> + 1)
      else round x)"

text \<open>The power \<open>2^k\<close> for an integer \<open>k\<close>.\<close>

definition pw :: "int \<Rightarrow> real" where
  "pw k = 2 powi k"

text \<open>
  The binary exponent of a positive real \<open>x\<close>: the integer \<open>e\<close> with
  \<open>2^e \<le> x < 2^(e+1)\<close>, from the number of bits of the integer part of \<open>x\<close> when
  \<open>x \<ge> 1\<close> and of \<open>1 / x\<close> otherwise.
\<close>

definition exponent :: "real \<Rightarrow> int" where
  "exponent x = (if 1 \<le> x then bitlen \<lfloor>x\<rfloor> - 1 else - bitlen (\<lceil>1 / x\<rceil> - 1))"

text \<open>
  The nearest value with 53 significant bits of a positive real \<open>x\<close>: with \<open>e\<close> the
  exponent of \<open>x\<close>, the scaled value \<open>x * 2^(52-e)\<close> lies between \<open>2^52\<close> and \<open>2^53\<close> and
  is rounded to an integer significand.
\<close>

definition pos53 :: "real \<Rightarrow> real" where
  "pos53 x = (let e = exponent x in of_int (round_even (x * pw (52 - e))) * pw (e - 52))"

definition round53 :: "real \<Rightarrow> real" where
  "round53 x = (if 0 < x then pos53 x else if x < 0 then - pos53 (- x) else 0)"

text \<open>The Number that an arithmetic operation with the exact result \<open>x\<close> returns.\<close>

definition fl :: "real \<Rightarrow> number" where
  "fl x =
     (let r = round53 x
      in if 2 ^ 1024 \<le> r then PosInf else if r \<le> - (2 ^ 1024) then NegInf else Fin r)"

fun js_add :: "number \<Rightarrow> number \<Rightarrow> number" where
  "js_add NaN b = NaN"
| "js_add a NaN = NaN"
| "js_add (Fin x) (Fin y) = fl (x + y)"
| "js_add PosInf NegInf = NaN"
| "js_add NegInf PosInf = NaN"
| "js_add PosInf b = PosInf"
| "js_add NegInf b = NegInf"
| "js_add (Fin x) b = b"

text \<open>\<open>a - b\<close> is \<open>a + (-b)\<close>, negation being exact.\<close>

definition js_sub :: "number \<Rightarrow> number \<Rightarrow> number" where
  "js_sub a b = js_add a (js_neg b)"

text \<open>Division by a finite, strictly positive divisor (the only one the source uses).\<close>

fun js_div_pos :: "number \<Rightarrow> real \<Rightarrow> number" where
  "js_div_pos (Fin x) d = fl (x / d)"
| "js_div_pos a d = a"

fun Math_ceil :: "number \<Rightarrow> number" where
  "Math_ceil (Fin x) = Fin (of_int \<lceil>x\<rceil>)"
| "Math_ceil a = a"

text \<open>\<open>ToBoolean\<close> on a number: zero and NaN are falsy.\<close>

definition truthy :: "number \<Rightarrow> bool" where
  "truthy a = (a \<noteq> NaN \<and> a \<noteq> Fin 0)"

fun Number_isFinite :: "number \<Rightarrow> bool" where
  "Number_isFinite (Fin x) = True"
| "Number_isFinite a = False"

section \<open>ECMAScript Date objects\<close>

text \<open>
  A Date holds a time value: an integral number of milliseconds since the epoch, at most
  8.64e15 in magnitude, or NaN (an invalid Date).  \<open>None\<close> is the NaN time value.
  The built-ins below follow ECMA-262 (Date objects).  What depends on the machine the
  program runs on is a parameter, collected in the record \<open>host\<close>: the parser behind
  \<open>new Date(string)\<close>, the local time zone adjustment, and the formatter
  \<open>toISOString\<close>.
\<close>

type_synonym Date = "int option"

record host =
  Date_parse :: "string \<Rightarrow> int option"
  LocalTZA_utc :: "int \<Rightarrow> int"
  LocalTZA_local :: "int \<Rightarrow> int"
  toISOString :: "int \<Rightarrow> string"

definition msPerDay :: int where
  "msPerDay = 24 * 60 * 60 * 1000"

definition TimeClip :: "int \<Rightarrow> Date" where
  "TimeClip t = (if \<bar>t\<bar> > 8640000000000000 then None else Some t)"

definition LocalTime :: "host \<Rightarrow> int \<Rightarrow> int" where
  "LocalTime h t = t + LocalTZA_utc h t"

definition UTC :: "host \<Rightarrow> int \<Rightarrow> int" where
  "UTC h t = t - LocalTZA_local h t"

definition Day :: "int \<Rightarrow> int" where
  "Day t = t div msPerDay"

definition TimeWithinDay :: "int \<Rightarrow> int" where
  "TimeWithinDay t = t mod msPerDay"

text \<open>Day of the month (1 to 31) of a time value, in the proleptic Gregorian calendar.\<close>

definition DateFromTime :: "int \<Rightarrow> int" where
  "DateFromTime t =
     (let z = Day t + 719468;
          doe = z mod 146097;
          yoe = (doe - doe div 1460 + doe div 36524 - doe div 146096) div 365;
          doy = doe - (365 * yoe + yoe div 4 - yoe div 100);
          mp = (5 * doy + 2) div 153
      in doy - (153 * mp + 2) div 5 + 1)"

text \<open>\<open>ToIntegerOrInfinity\<close> on a finite value: truncation towards zero.\<close>

definition ToInteger :: "real \<Rightarrow> int" where
  "ToInteger x = (if 0 \<le> x then \<lfloor>x\<rfloor> else \<lceil>x\<rceil>)"

text \<open>
  \<open>new Date(s)\<close> for a string \<open>s\<close>.  The empty string is never a date.
\<close>

definition Date_of_string :: "host \<Rightarrow> string \<Rightarrow> Date" where
  "Date_of_string h s =
     (if s = [] then None
      else case Date_parse h s of None \<Rightarrow> None | Some tv \<Rightarrow> TimeClip tv)"

definition getTime :: "Date \<Rightarrow> number" where
  "getTime d = (case d of None \<Rightarrow> NaN | Some t \<Rightarrow> Fin (of_int t))"

definition getDate :: "host \<Rightarrow> Date \<Rightarrow> number" where
  "getDate h d =
     (case d of None \<Rightarrow> NaN
      | Some t \<Rightarrow> Fin (of_int (DateFromTime (LocalTime h t))))"

text \<open>
  \<open>d.setDate(dt)\<close>, returning the Date after the call.  \<open>MakeDay\<close> of the year and
  month of the local time \<open>t\<close> with day-of-month \<open>dt\<close> is the day number of the first of
  that month, \<open>Day t - (DateFromTime t - 1)\<close>, plus \<open>ToInteger dt - 1\<close>; a \<open>dt\<close> that
  is not finite makes the Date invalid.
\<close>

definition setDate :: "host \<Rightarrow> Date \<Rightarrow> number \<Rightarrow> Date" where
  "setDate h d dt =
     (case d of None \<Rightarrow> None
      | Some tv \<Rightarrow>
         (case dt of
            Fin x \<Rightarrow>
              (let t = LocalTime h tv;
                   day = Day t - (DateFromTime t - 1) + (ToInteger x - 1);
                   newDate = day * msPerDay + TimeWithinDay t
               in TimeClip (UTC h newDate))
          | _ \<Rightarrow> None))"

section \<open>Entities\<close>

datatype SpoilageStatus = Fresh | NearExpiry | Expired | Unknown

text \<open>
  The stored record.  \<open>shelfLifeDays\<close> is \<open>None\<close> for a record that lacks the field
  (\<open>undefined\<close> at run time, which the guard \<open>!ingredient.shelfLifeDays\<close> covers);
  \<open>purchasedAt\<close> is \<open>None\<close> for \<open>null\<close>.
\<close>

record Ingredient =
  id' :: string
  name :: string
  unit :: string
  stockQty :: number
  shelfLifeDays :: "number option"
  purchasedAt :: "string option"

record SpoilageResult =
  expiryDate :: "Date option"
  daysRemaining :: "number option"
  spoilageStatus :: SpoilageStatus

section \<open>Spoilage engine\<close>

definition DEFAULT_NEAR_EXPIRY_THRESHOLD_DAYS :: number where
  "DEFAULT_NEAR_EXPIRY_THRESHOLD_DAYS = Fin 3"

definition unknownResult :: SpoilageResult where
  "unknownResult =
     \<lparr>SpoilageResult.expiryDate = None, SpoilageResult.daysRemaining = None,
      SpoilageResult.spoilageStatus = Unknown\<rparr>"

text \<open>\<open>computeSpoilage\<close> on arguments of the declared types.\<close>

definition computeSpoilage ::
  "host \<Rightarrow> Ingredient \<Rightarrow> Date \<Rightarrow> number \<Rightarrow> SpoilageResult" where
  "computeSpoilage h ingredient currentDate nearExpiryThresholdDays =
     (case Ingredient.purchasedAt ingredient of
        None \<Rightarrow> unknownResult
      | Some p \<Rightarrow>
          if p = [] then unknownResult
          else
            (case Ingredient.shelfLifeDays ingredient of
               None \<Rightarrow> unknownResult
             | Some n \<Rightarrow>
                 if \<not> truthy n \<or> js_le n (Fin 0) then unknownResult
                 else
                   (let purchaseDate = Date_of_string h p in
                    if isNaN (getTime purchaseDate) then unknownResult
                    else
                      (let expiry = setDate h purchaseDate (js_add (getDate h purchaseDate) n);
                           diffMs = js_sub (getTime expiry) (getTime currentDate);
                           days = Math_ceil (js_div_pos diffMs (of_int msPerDay))
                       in \<lparr>SpoilageResult.expiryDate = Some expiry,
                           SpoilageResult.daysRemaining = Some days,
                           SpoilageResult.spoilageStatus =
                             (if js_lt days (Fin 0) then Expired
                              else if js_le days nearExpiryThresholdDays then NearExpiry
                              else Fresh)\<rparr>))))"

text \<open>
  The same function as a call from JavaScript reaches it.  A caller can pass \<open>undefined\<close>
  or \<open>null\<close> for a parameter.  \<open>undefined\<close> for the second or the third parameter selects
  its default (\<open>clock\<close> is the time value that \<open>new Date()\<close> reads); \<open>null\<close> does not.
  Reading a property of \<open>undefined\<close> or \<open>null\<close> raises a \<open>TypeError\<close>: so does
  \<open>ingredient.purchasedAt\<close> for the first parameter, and \<open>currentDate.getTime()\<close> for the
  second, which is reached once the three guards are passed.  In
  \<open>daysRemaining <= nearExpiryThresholdDays\<close> a \<open>null\<close> threshold is the number 0.
\<close>

datatype 'a arg = Undefined | Null | Value 'a

datatype raised = TypeError

definition computeSpoilage_call ::
  "host \<Rightarrow> int \<Rightarrow> Ingredient arg \<Rightarrow> Date arg \<Rightarrow> number arg \<Rightarrow> raised + SpoilageResult" where
  "computeSpoilage_call h clock ingredient currentDate nearExpiryThresholdDays =
     (let cur = (case currentDate of Undefined \<Rightarrow> Value (Some clock) | c \<Rightarrow> c);
          threshold =
            (case nearExpiryThresholdDays of
               Undefined \<Rightarrow> DEFAULT_NEAR_EXPIRY_THRESHOLD_DAYS
             | Null \<Rightarrow> Fin 0
             | Value t \<Rightarrow> t)
      in case ingredient of
           Value ing \<Rightarrow>
             (case Ingredient.purchasedAt ing of
                None \<Rightarrow> Inr unknownResult
              | Some p \<Rightarrow>
                  if p = [] then Inr unknownResult
                  else
                    (case Ingredient.shelfLifeDays ing of
                       None \<Rightarrow> Inr unknownResult
                     | Some n \<Rightarrow>
                         if \<not> truthy n \<or> js_le n (Fin 0) then Inr unknownResult
                         else
                           (let purchaseDate = Date_of_string h p in
                            if isNaN (getTime purchaseDate) then Inr unknownResult
                            else
                              (let expiry =
                                     setDate h purchaseDate (js_add (getDate h purchaseDate) n)
                               in case cur of
                                    Value now \<Rightarrow>
                                      (let diffMs = js_sub (getTime expiry) (getTime now);
                                           days = Math_ceil (js_div_pos diffMs (of_int msPerDay))
                                       in Inr \<lparr>SpoilageResult.expiryDate = Some expiry,
                                               SpoilageResult.daysRemaining = Some days,
                                               SpoilageResult.spoilageStatus =
                                                 (if js_lt days (Fin 0) then Expired
                                                  else if js_le days threshold then NearExpiry
                                                  else Fresh)\<rparr>)
                                  | _ \<Rightarrow> Inl TypeError))))
         | _ \<Rightarrow> Inl TypeError)"

text \<open>
  What the specification calls calendar day addition: the instant that shows the same
  local wall-clock time \<open>k\<close> local calendar days after \<open>t\<close> (an invalid Date when that
  instant is outside the range of time values).
\<close>

definition addCalendarDays :: "host \<Rightarrow> int \<Rightarrow> int \<Rightarrow> Date" where
  "addCalendarDays h t k = TimeClip (UTC h (LocalTime h t + k * msPerDay))"

text \<open>The direction in which a status may move as time passes.\<close>

fun advances :: "SpoilageStatus \<Rightarrow> SpoilageStatus \<Rightarrow> bool" where
  "advances Fresh s = (s = Fresh \<or> s = NearExpiry \<or> s = Expired)"
| "advances NearExpiry s = (s = NearExpiry \<or> s = Expired)"
| "advances Expired s = (s = Expired)"
| "advances Unknown s = (s = Unknown)"

record IngredientWithSpoilage = Ingredient +
  inStock :: bool
  expiryDate :: "Date option"
  daysRemaining :: "number option"
  spoilageStatus :: SpoilageStatus



subsection \<open>Sorting by urgency\<close>

fun statusOrder :: "SpoilageStatus \<Rightarrow> int" where
  "statusOrder Expired = 0"
| "statusOrder NearExpiry = 1"
| "statusOrder Fresh = 2"
| "statusOrder Unknown = 3"

text \<open>The comparator passed to \<open>sort\<close>.\<close>

definition compareUrgency :: "IngredientWithSpoilage \<Rightarrow> IngredientWithSpoilage \<Rightarrow> number" where
  "compareUrgency a b =
     (let statusDiff = statusOrder (spoilageStatus a) - statusOrder (spoilageStatus b)
      in if statusDiff \<noteq> 0 then Fin (of_int statusDiff)
         else (case (daysRemaining a, daysRemaining b) of
                 (None, None) \<Rightarrow> Fin 0
               | (None, Some y) \<Rightarrow> Fin 1
               | (Some x, None) \<Rightarrow> Fin (- 1)
               | (Some x, Some y) \<Rightarrow> js_sub x y))"

text \<open>
  \<open>Array.prototype.sort\<close> with a comparator.  ECMAScript requires the sort to be stable;
  \<open>x\<close> is placed after \<open>y\<close> exactly when the comparator returns a number greater than
  zero for \<open>(x, y)\<close>, and a NaN answer counts as zero.  For a consistent comparator the
  stable order is unique, and a stable insertion computes it; for any other comparator
  ECMAScript leaves the order to the implementation, and the insertion is one.
\<close>

fun insertBy :: "('a \<Rightarrow> 'a \<Rightarrow> number) \<Rightarrow> 'a \<Rightarrow> 'a list \<Rightarrow> 'a list" where
  "insertBy cmp x [] = [x]"
| "insertBy cmp x (y # ys) =
     (if js_lt (Fin 0) (cmp x y) then y # insertBy cmp x ys else x # y # ys)"

definition Array_sort :: "('a \<Rightarrow> 'a \<Rightarrow> number) \<Rightarrow> 'a list \<Rightarrow> 'a list" where
  "Array_sort cmp xs = foldr (insertBy cmp) xs []"

text \<open>\<open>sortByExpiryUrgency\<close> on the contents of the array it is given.\<close>

definition sortByExpiryUrgency :: "IngredientWithSpoilage list \<Rightarrow> IngredientWithSpoilage list" where
  "sortByExpiryUrgency ingredients = Array_sort compareUrgency ingredients"

text \<open>
  The same function on a memory of arrays that hold references to objects, to tell the
  array it returns from the one it is given: \<open>[...ingredients]\<close> allocates a new array
  with the same references, and \<open>sort\<close> reorders that array in place and returns it.
\<close>

record memory =
  objects :: "nat \<Rightarrow> IngredientWithSpoilage"
  arrays :: "nat \<Rightarrow> nat list"
  fresh :: nat

definition spread :: "nat \<Rightarrow> memory \<Rightarrow> nat \<times> memory" where
  "spread a m = (fresh m, m\<lparr>arrays := (arrays m)(fresh m := arrays m a), fresh := fresh m + 1\<rparr>)"

definition sort_in_place ::
  "(IngredientWithSpoilage \<Rightarrow> IngredientWithSpoilage \<Rightarrow> number) \<Rightarrow> nat \<Rightarrow> memory \<Rightarrow> nat \<times> memory" where
  "sort_in_place cmp a m =
     (a, m\<lparr>arrays := (arrays m)
            (a := Array_sort (\<lambda>r1 r2. cmp (objects m r1) (objects m r2)) (arrays m a))\<rparr>)"

definition sortByExpiryUrgency_mem :: "nat \<Rightarrow> memory \<Rightarrow> nat \<times> memory" where
  "sortByExpiryUrgency_mem ingredients m =
     (case spread ingredients m of (copy, m1) \<Rightarrow> sort_in_place compareUrgency copy m1)"

text \<open>Vocabulary of the sorting properties.\<close>





section \<open>Record store\<close>

text \<open>
  A value that a rejected promise carries: an instance of \<open>Error\<close> with its message, or
  any other value.
\<close>

datatype thrown = Error string | NonError

text \<open>
  The Dexie database: the table \<open>ingredients\<close> keyed by \<open>id\<close>.  Two further components
  stand for the storage engine under it: \<open>failures\<close> holds its answers to the requests
  still to come (\<open>Some e\<close>: the request is rejected with \<open>e\<close>; an exhausted list: every
  request succeeds), and \<open>requests\<close> counts the requests made so far.
\<close>

record CookingAppDB =
  ingredients :: "string \<rightharpoonup> Ingredient"
  failures :: "thrown option list"
  requests :: nat

text \<open>An awaited promise: rejected (\<open>Inl\<close>) or fulfilled (\<open>Inr\<close>), and the database after it.\<close>

type_synonym 'a promise = "(thrown + 'a) \<times> CookingAppDB"

definition request :: "CookingAppDB \<Rightarrow> thrown option \<times> CookingAppDB" where
  "request db =
     (case failures db of
        [] \<Rightarrow> (None, db\<lparr>requests := requests db + 1\<rparr>)
      | f # fs \<Rightarrow> (f, db\<lparr>failures := fs, requests := requests db + 1\<rparr>))"

definition await :: "'a promise \<Rightarrow> ('a \<Rightarrow> CookingAppDB \<Rightarrow> 'b promise) \<Rightarrow> 'b promise" where
  "await p k = (case p of (Inl e, db) \<Rightarrow> (Inl e, db) | (Inr v, db) \<Rightarrow> k v db)"

text \<open>The object passed to \<open>Table.update\<close>: the fields to overwrite.\<close>

record Partial_Ingredient =
  name :: "string option"
  unit :: "string option"
  stockQty :: "number option"
  shelfLifeDays :: "number option"
  purchasedAt :: "string option option"

definition applyChanges :: "Partial_Ingredient \<Rightarrow> Ingredient \<Rightarrow> Ingredient" where
  "applyChanges c ing =
     ing\<lparr>Ingredient.name := (case Partial_Ingredient.name c of None \<Rightarrow> Ingredient.name ing | Some v \<Rightarrow> v),
         Ingredient.unit := (case Partial_Ingredient.unit c of None \<Rightarrow> Ingredient.unit ing | Some v \<Rightarrow> v),
         Ingredient.stockQty :=
           (case Partial_Ingredient.stockQty c of None \<Rightarrow> Ingredient.stockQty ing | Some v \<Rightarrow> v),
         Ingredient.shelfLifeDays :=
           (case Partial_Ingredient.shelfLifeDays c of
              None \<Rightarrow> Ingredient.shelfLifeDays ing | Some v \<Rightarrow> Some v),
         Ingredient.purchasedAt :=
           (case Partial_Ingredient.purchasedAt c of
              None \<Rightarrow> Ingredient.purchasedAt ing | Some v \<Rightarrow> v)\<rparr>"

definition Table_get :: "string \<Rightarrow> CookingAppDB \<Rightarrow> Ingredient option promise" where
  "Table_get key db =
     (case request db of
        (Some e, db') \<Rightarrow> (Inl e, db')
      | (None, db') \<Rightarrow> (Inr (ingredients db' key), db'))"

text \<open>\<open>add\<close> rejects when the key is taken.\<close>

definition Table_add :: "Ingredient \<Rightarrow> CookingAppDB \<Rightarrow> string promise" where
  "Table_add item db =
     (case request db of
        (Some e, db') \<Rightarrow> (Inl e, db')
      | (None, db') \<Rightarrow>
          (case ingredients db' (id' item) of
             Some old \<Rightarrow> (Inl (Error ''Key already exists in the object store.''), db')
           | None \<Rightarrow> (Inr (id' item), db'\<lparr>ingredients := (ingredients db')(id' item \<mapsto> item)\<rparr>)))"

text \<open>\<open>update\<close> answers 1 when it changed the record and 0 otherwise.\<close>

definition Table_update :: "string \<Rightarrow> Partial_Ingredient \<Rightarrow> CookingAppDB \<Rightarrow> nat promise" where
  "Table_update key changes db =
     (case request db of
        (Some e, db') \<Rightarrow> (Inl e, db')
      | (None, db') \<Rightarrow>
          (case ingredients db' key of
             None \<Rightarrow> (Inr 0, db')
           | Some ing \<Rightarrow>
               (Inr (if applyChanges changes ing = ing then 0 else 1),
                db'\<lparr>ingredients := (ingredients db')(key \<mapsto> applyChanges changes ing)\<rparr>)))"

definition Table_delete :: "string \<Rightarrow> CookingAppDB \<Rightarrow> unit promise" where
  "Table_delete key db =
     (case request db of
        (Some e, db') \<Rightarrow> (Inl e, db')
      | (None, db') \<Rightarrow> (Inr (), db'\<lparr>ingredients := (ingredients db')(key := None)\<rparr>))"

text \<open>
  \<open>db.transaction('rw', db.ingredients, body)\<close>: when the body is rejected, or the commit
  (one more request) is, the table is as it was when the transaction began, and the
  transaction is rejected with the same value.
\<close>

definition transaction :: "(CookingAppDB \<Rightarrow> 'a promise) \<Rightarrow> CookingAppDB \<Rightarrow> 'a promise" where
  "transaction body db =
     (case body db of
        (Inl e, db') \<Rightarrow> (Inl e, db'\<lparr>ingredients := ingredients db\<rparr>)
      | (Inr v, db') \<Rightarrow>
          (case request db' of
             (Some e, db'') \<Rightarrow> (Inl e, db''\<lparr>ingredients := ingredients db\<rparr>)
           | (None, db'') \<Rightarrow> (Inr v, db'')))"

section \<open>Action layer: buy\<close>

text \<open>
  The body of the transaction.  \<open>clock\<close> is the time value that \<open>new Date()\<close> reads.
\<close>

definition buyIngredient_body ::
  "host \<Rightarrow> int \<Rightarrow> string \<Rightarrow> number \<Rightarrow> CookingAppDB
     \<Rightarrow> (Ingredient option \<times> number \<times> number) promise" where
  "buyIngredient_body h clock ingredientId purchasedQty db =
     await (Table_get ingredientId db) (\<lambda>found db1.
       case found of
         None \<Rightarrow> (Inl (Error ''Ingredient not found''), db1)
       | Some ingredient \<Rightarrow>
           (let previousStockQty = Ingredient.stockQty ingredient;
                newStockQty = js_add previousStockQty purchasedQty;
                newPurchasedAt = toISOString h clock
            in await (Table_update ingredientId
                        \<lparr>Partial_Ingredient.name = None, unit = None,
                         stockQty = Some newStockQty, shelfLifeDays = None,
                         purchasedAt = Some (Some newPurchasedAt)\<rparr> db1) (\<lambda>n db2.
                 await (Table_get ingredientId db2) (\<lambda>updatedIngredient db3.
                   (Inr (updatedIngredient, previousStockQty, newStockQty), db3)))))"

record BuyIngredientInput =
  ingredientId :: string
  purchasedQty :: number

record BuyIngredientResult =
  success :: bool
  error :: "string option"
  updatedIngredient :: "Ingredient option"
  previousStockQty :: "number option"
  newStockQty :: "number option"

text \<open>The result object of the three failure returns, which differ in the message only.\<close>

definition failureResult :: "string \<Rightarrow> BuyIngredientResult" where
  "failureResult msg =
     \<lparr>success = False, error = Some msg, updatedIngredient = None,
      previousStockQty = None, newStockQty = None\<rparr>"

text \<open>\<open>error instanceof Error ? error.message : 'Unknown error occurred'\<close>\<close>

fun errorMessage :: "thrown \<Rightarrow> string" where
  "errorMessage (Error msg) = msg"
| "errorMessage NonError = ''Unknown error occurred''"

definition buyIngredient ::
  "host \<Rightarrow> int \<Rightarrow> BuyIngredientInput \<Rightarrow> CookingAppDB \<Rightarrow> BuyIngredientResult \<times> CookingAppDB" where
  "buyIngredient h clock input db =
     (if js_le (purchasedQty input) (Fin 0)
      then (failureResult ''Purchase quantity must be greater than 0'', db)
      else if \<not> Number_isFinite (purchasedQty input)
      then (failureResult ''Purchase quantity must be a valid number'', db)
      else
        (case transaction
                (buyIngredient_body h clock (ingredientId input) (purchasedQty input)) db of
           (Inr (updated, previous, new), db') \<Rightarrow>
             (\<lparr>success = True, error = None, updatedIngredient = updated,
               previousStockQty = Some previous, newStockQty = Some new\<rparr>, db')
         | (Inl e, db') \<Rightarrow> (failureResult (errorMessage e), db')))"

section \<open>Action layer: CRUD\<close>

record IngredientFormData =
  name :: string
  unit :: string
  stockQty :: number
  shelfLifeDays :: number

record Partial_IngredientFormData =
  name :: "string option"
  unit :: "string option"
  stockQty :: "number option"
  shelfLifeDays :: "number option"

text \<open>
  \<open>String.prototype.trim\<close>.  A \<open>char\<close> is a code unit below 256; the white space and
  line terminators among them are the six control characters below and the no-break
  space.
\<close>

definition isWhiteSpace :: "char \<Rightarrow> bool" where
  "isWhiteSpace c = ((of_char c :: nat) \<in> {9, 10, 11, 12, 13, 32, 160})"

definition trim :: "string \<Rightarrow> string" where
  "trim s = rev (dropWhile isWhiteSpace (rev (dropWhile isWhiteSpace s)))"

text \<open>\<open>uuid\<close> is the identifier that \<open>uuidv4()\<close> returns.\<close>

definition createIngredient ::
  "string \<Rightarrow> IngredientFormData \<Rightarrow> CookingAppDB \<Rightarrow> Ingredient promise" where
  "createIngredient uuid data db =
     (let ingredient =
            \<lparr>id' = uuid,
             Ingredient.name = trim (IngredientFormData.name data),
             Ingredient.unit = trim (IngredientFormData.unit data),
             Ingredient.stockQty = IngredientFormData.stockQty data,
             Ingredient.shelfLifeDays = Some (IngredientFormData.shelfLifeDays data),
             Ingredient.purchasedAt = None\<rparr>
      in await (Table_add ingredient db) (\<lambda>key db1. (Inr ingredient, db1)))"

definition updateIngredient ::
  "string \<Rightarrow> Partial_IngredientFormData \<Rightarrow> CookingAppDB \<Rightarrow> Ingredient option promise" where
  "updateIngredient ident data db =
     await (Table_get ident db) (\<lambda>existing db1.
       case existing of
         None \<Rightarrow> (Inr None, db1)
       | Some e \<Rightarrow>
           (let updates =
                  \<lparr>Partial_Ingredient.name = map_option trim (Partial_IngredientFormData.name data),
                   unit = map_option trim (Partial_IngredientFormData.unit data),
                   stockQty = Partial_IngredientFormData.stockQty data,
                   shelfLifeDays = Partial_IngredientFormData.shelfLifeDays data,
                   purchasedAt = None\<rparr>
            in await (Table_update ident updates db1) (\<lambda>n db2.
                 await (Table_get ident db2) (\<lambda>updated db3. (Inr updated, db3)))))"

definition deleteIngredient :: "string \<Rightarrow> CookingAppDB \<Rightarrow> bool promise" where
  "deleteIngredient ident db =
     await (Table_get ident db) (\<lambda>existing db1.
       case existing of
         None \<Rightarrow> (Inr False, db1)
       | Some e \<Rightarrow> await (Table_delete ident db1) (\<lambda>u db2. (Inr True, db2)))"

section \<open>Vocabulary of the properties\<close>

text \<open>
  What \<open>computeSpoilage\<close> returns once its three guards are passed, as a function of the
  expiry Date it has computed.
\<close>

definition verdict :: "Date \<Rightarrow> Date \<Rightarrow> number \<Rightarrow> SpoilageResult" where
  "verdict expiry cur th =
     (let days = Math_ceil (js_div_pos (js_sub (getTime expiry) (getTime cur)) (of_int msPerDay))
      in \<lparr>SpoilageResult.expiryDate = Some expiry, SpoilageResult.daysRemaining = Some days,
          SpoilageResult.spoilageStatus =
            (if js_lt days (Fin 0) then Expired
             else if js_le days th then NearExpiry else Fresh)\<rparr>)"

text \<open>
  The later of two \<open>daysRemaining\<close> values is \<open><=\<close> the earlier one: both are \<open>null\<close>,
  or both are numbers and the later is \<open><=\<close> the earlier (which is false when either is
  NaN).
\<close>

fun laterNotGreater :: "number option \<Rightarrow> number option \<Rightarrow> bool" where
  "laterNotGreater (Some a) (Some b) = js_le b a"
| "laterNotGreater None None = True"
| "laterNotGreater a b = False"

text \<open>The storage engine rejects none of the next \<open>n\<close> requests.\<close>

definition succeed :: "nat \<Rightarrow> CookingAppDB \<Rightarrow> bool" where
  "succeed n db = (\<forall>f \<in> set (take n (failures db)). f = None)"

text \<open>The database after the engine has answered one request, the table untouched.\<close>

definition answered :: "CookingAppDB \<Rightarrow> CookingAppDB" where
  "answered db = db\<lparr>failures := tl (failures db), requests := requests db + 1\<rparr>"

text \<open>The record a purchase of \<open>qty\<close> at the instant \<open>clock\<close> should leave in the table.\<close>

definition bought :: "host \<Rightarrow> int \<Rightarrow> number \<Rightarrow> Ingredient \<Rightarrow> Ingredient" where
  "bought h clock qty ing =
     ing\<lparr>Ingredient.stockQty := js_add (Ingredient.stockQty ing) qty,
         Ingredient.purchasedAt := Some (toISOString h clock)\<rparr>"

text \<open>The record an update with the partial form data should leave in the table.\<close>

definition updated :: "Partial_IngredientFormData \<Rightarrow> Ingredient \<Rightarrow> Ingredient" where
  "updated data ing =
     ing\<lparr>Ingredient.name :=
           (case Partial_IngredientFormData.name data of
              None \<Rightarrow> Ingredient.name ing | Some v \<Rightarrow> trim v),
         Ingredient.unit :=
           (case Partial_IngredientFormData.unit data of
              None \<Rightarrow> Ingredient.unit ing | Some v \<Rightarrow> trim v),
         Ingredient.stockQty :=
           (case Partial_IngredientFormData.stockQty data of
              None \<Rightarrow> Ingredient.stockQty ing | Some v \<Rightarrow> v),
         Ingredient.shelfLifeDays :=
           (case Partial_IngredientFormData.shelfLifeDays data of
              None \<Rightarrow> Ingredient.shelfLifeDays ing | Some v \<Rightarrow> Some v)\<rparr>"

section \<open>Example data\<close>

text \<open>A machine on UTC whose parser is given for one string.\<close>

definition exampleHost :: host where
  "exampleHost =
     \<lparr>Date_parse = (\<lambda>s. if s = ''2024-01-01T00:00:00.000Z'' then Some 1704067200000 else None),
      LocalTZA_utc = (\<lambda>t. 0),
      LocalTZA_local = (\<lambda>t. 0),
      toISOString =
        (\<lambda>t. if t = 1704067200000 then ''2024-01-01T00:00:00.000Z'' else ''another instant'')\<rparr>"

text \<open>
  A machine in New York in the autumn of 2024: four hours behind UTC until daylight saving
  time ends on 3 November at 06:00 UTC, five hours from then.  A local time before 02:00
  on that day is read with the offset before the change.
\<close>

definition newYorkHost :: host where
  "newYorkHost =
     \<lparr>Date_parse = (\<lambda>s. if s = ''2024-10-28T16:00:00.000Z'' then Some 1730131200000 else None),
      LocalTZA_utc = (\<lambda>t. if t < 1730613600000 then - 14400000 else - 18000000),
      LocalTZA_local = (\<lambda>t. if t < 1730599200000 then - 14400000 else - 18000000),
      toISOString =
        (\<lambda>t. if t = 1730131200000 then ''2024-10-28T16:00:00.000Z'' else ''another instant'')\<rparr>"

text \<open>A machine on UTC whose parser is given for the third last day of the range of Dates.\<close>

definition lateHost :: host where
  "lateHost =
     \<lparr>Date_parse =
        (\<lambda>s. if s = ''+275760-09-11T00:00:00.000Z'' then Some 8639999827200000 else None),
      LocalTZA_utc = (\<lambda>t. 0),
      LocalTZA_local = (\<lambda>t. 0),
      toISOString =
        (\<lambda>t. if t = 8639999827200000 then ''+275760-09-11T00:00:00.000Z''
             else ''another instant'')\<rparr>"

definition exampleIngredient :: "number \<Rightarrow> string \<Rightarrow> Ingredient" where
  "exampleIngredient life boughtAt =
     \<lparr>id' = ''a1'', Ingredient.name = ''Milk'', Ingredient.unit = ''L'',
      Ingredient.stockQty = Fin 2, Ingredient.shelfLifeDays = Some life,
      Ingredient.purchasedAt = Some boughtAt\<rparr>"

definition neverBought :: Ingredient where
  "neverBought =
     \<lparr>id' = ''a1'', Ingredient.name = ''Milk'', Ingredient.unit = ''L'',
      Ingredient.stockQty = Fin 2, Ingredient.shelfLifeDays = Some (Fin 7),
      Ingredient.purchasedAt = None\<rparr>"

definition exampleDB :: "thrown option list \<Rightarrow> CookingAppDB" where
  "exampleDB fs = \<lparr>ingredients = [''a1'' \<mapsto> neverBought], failures = fs, requests = 0\<rparr>"

definition exampleEntry :: "SpoilageStatus \<Rightarrow> number option \<Rightarrow> IngredientWithSpoilage" where
  "exampleEntry st days =
     \<lparr>id' = ''a1'', Ingredient.name = ''Milk'', Ingredient.unit = ''L'',
      Ingredient.stockQty = Fin 2, Ingredient.shelfLifeDays = Some (Fin 7),
      Ingredient.purchasedAt = Some ''2024-01-01T00:00:00.000Z'',
      inStock = True, expiryDate = None, daysRemaining = days, spoilageStatus = st\<rparr>"

definition exampleMemory :: memory where
  "exampleMemory =
     \<lparr>objects = (\<lambda>r. if r = 0 then exampleEntry Fresh (Some (Fin 9))
                     else if r = 1 then exampleEntry Expired (Some (Fin (- 2)))
                     else exampleEntry Unknown None),
      arrays = (\<lambda>a. if a = 0 then [0, 1, 2] else []),
      fresh = 1\<rparr>"

section \<open>Rounding to binary64\<close>

subsection \<open>Powers of two, exponents and rounding to an integer\<close>

lemma pw_pos [simp]: "0 < pw k"
  by (simp add: pw_def power_int_def)

lemma pw_nonneg [simp]: "0 \<le> pw k"
  using pw_pos [of k] by linarith

lemma pw_add: "pw (a + b) = pw a * pw b"
  by (simp add: pw_def power_int_add)

lemma pw_nat: "0 \<le> k \<Longrightarrow> pw k = of_int (2 ^ nat k)"
  by (simp add: pw_def power_int_def)

lemma pw_powr: "pw k = 2 powr of_int k"
  by (simp add: pw_def power_int_def powr_real_of_int power_divide inverse_eq_divide)

lemma pw_mono: "a \<le> b \<Longrightarrow> pw a \<le> pw b"
  by (simp add: pw_powr)

lemma pw_cancel: "pw a * pw (- a) = 1"
  using pw_add [of a "- a"] by (simp add: pw_def)

lemma round_even_of_int [simp]: "round_even (of_int n) = n"
  by (simp add: round_even_def)

lemma round_even_ge: "x - 1 / 2 \<le> of_int (round_even x)"
  unfolding round_even_def using of_int_round_ge [of x] by (auto; linarith)

lemma round_even_le: "of_int (round_even x) \<le> x + 1 / 2"
  unfolding round_even_def using of_int_round_le [of x] by (auto; linarith)

lemma round_even_mono: "x \<le> y \<Longrightarrow> round_even x \<le> round_even y"
proof -
  assume xy: "x \<le> y"
  have fm: "\<lfloor>x\<rfloor> \<le> \<lfloor>y\<rfloor>" using xy by (rule floor_mono)
  show ?thesis
  proof (cases "\<lfloor>x\<rfloor> = \<lfloor>y\<rfloor>")
    case True
    then show ?thesis
      unfolding round_even_def round_def using xy
      by (auto; linarith)
  next
    case False
    then have "\<lfloor>x\<rfloor> + 1 \<le> \<lfloor>y\<rfloor>" using fm by linarith
    moreover have "round_even x \<le> \<lfloor>x\<rfloor> + 1"
      unfolding round_even_def round_def by (auto; linarith)
    moreover have "\<lfloor>y\<rfloor> \<le> round_even y"
      unfolding round_even_def round_def by (auto; linarith)
    ultimately show ?thesis by linarith
  qed
qed

lemma log2_bounds:
  assumes "0 < x"
  shows "pw \<lfloor>log 2 x\<rfloor> \<le> x" and "x < pw (\<lfloor>log 2 x\<rfloor> + 1)"
  using floor_log_eq_powr_iff [of x 2 "\<lfloor>log 2 x\<rfloor>"] assms by (simp_all add: pw_powr)

lemma log2_floor_eq:
  "0 < x \<Longrightarrow> pw k \<le> x \<Longrightarrow> x < pw (k + 1) \<Longrightarrow> \<lfloor>log 2 x\<rfloor> = k"
  using floor_log_eq_powr_iff [of x 2 k] by (simp add: pw_powr)

lemma pw_neg: "0 \<le> k \<Longrightarrow> pw (- k) = 1 / of_int (2 ^ nat k)"
  by (simp add: pw_def power_int_def power_divide inverse_eq_divide)

lemma exponent_eq:
  assumes "0 < x"
  shows "exponent x = \<lfloor>log 2 x\<rfloor>"
proof (cases "1 \<le> x")
  case True
  define n where "n = \<lfloor>x\<rfloor>"
  have n: "0 < n" using True by (simp add: n_def)
  define b where "b = bitlen n"
  have bb: "2 ^ nat (b - 1) \<le> n" "n < 2 ^ nat b"
    using bitlen_bounds [OF n] by (simp_all add: b_def)
  have b1: "1 \<le> b" using n by (simp add: b_def bitlen_alt_def)
  have "pw (b - 1) = of_int (2 ^ nat (b - 1))" using b1 by (intro pw_nat) simp
  also have "\<dots> \<le> of_int n" using bb(1) by (simp only: of_int_le_iff)
  also have "\<dots> \<le> x" by (simp add: n_def)
  finally have lo: "pw (b - 1) \<le> x" .
  have "n + 1 \<le> 2 ^ nat b" using bb(2) by simp
  then have "(of_int (n + 1) :: real) \<le> of_int (2 ^ nat b)" by (simp only: of_int_le_iff)
  moreover have "x < of_int (n + 1)" by (simp add: n_def)
  moreover have "pw b = of_int (2 ^ nat b)" using b1 by (intro pw_nat) simp
  ultimately have hi: "x < pw (b - 1 + 1)" by simp
  have "\<lfloor>log 2 x\<rfloor> = b - 1" using assms lo hi by (rule log2_floor_eq)
  then show ?thesis using True by (simp add: exponent_def b_def n_def)
next
  case False
  define y where "y = 1 / x"
  have y: "1 < y" using False assms by (simp add: y_def)
  define n where "n = \<lceil>y\<rceil> - 1"
  have n: "0 < n" using y by (simp add: n_def)
  have ny: "of_int n < y" "y \<le> of_int n + 1"
    using ceiling_correct [of y] by (simp_all add: n_def)
  define b where "b = bitlen n"
  have bb: "2 ^ nat (b - 1) \<le> n" "n < 2 ^ nat b"
    using bitlen_bounds [OF n] by (simp_all add: b_def)
  have b1: "1 \<le> b" using n by (simp add: b_def bitlen_alt_def)
  have "n + 1 \<le> 2 ^ nat b" using bb(2) by simp
  then have "(of_int (n + 1) :: real) \<le> of_int (2 ^ nat b)" by (simp only: of_int_le_iff)
  then have "y \<le> of_int (2 ^ nat b)" using ny(2) by simp
  then have "1 / of_int (2 ^ nat b) \<le> 1 / y" using y by (intro divide_left_mono) simp_all
  moreover have "pw (- b) = 1 / of_int (2 ^ nat b)" using b1 by (intro pw_neg) simp
  ultimately have lo: "pw (- b) \<le> x" using assms by (simp add: y_def)
  have "(of_int (2 ^ nat (b - 1)) :: real) \<le> of_int n" using bb(1) by (simp only: of_int_le_iff)
  then have "of_int (2 ^ nat (b - 1)) < y" using ny(1) by linarith
  then have "1 / y < 1 / of_int (2 ^ nat (b - 1))" using y by (intro divide_strict_left_mono) simp_all
  moreover have "pw (- (b - 1)) = 1 / of_int (2 ^ nat (b - 1))" using b1 by (intro pw_neg) simp
  ultimately have hi: "x < pw (- b + 1)" using assms by (simp add: y_def)
  have "\<lfloor>log 2 x\<rfloor> = - b" using assms lo hi by (rule log2_floor_eq)
  then show ?thesis using False by (simp add: exponent_def b_def n_def y_def)
qed

lemma pos53_alt:
  "0 < x \<Longrightarrow>
   pos53 x = of_int (round_even (x * pw (52 - \<lfloor>log 2 x\<rfloor>))) * pw (\<lfloor>log 2 x\<rfloor> - 52)"
  by (simp add: pos53_def exponent_eq Let_def)

lemma pos53_eval:
  "0 < x \<Longrightarrow> pw k \<le> x \<Longrightarrow> x < pw (k + 1) \<Longrightarrow>
   pos53 x = of_int (round_even (x * pw (52 - k))) * pw (k - 52)"
  by (simp add: pos53_alt log2_floor_eq)

lemma scaled_bounds:
  assumes "0 < x" "e = \<lfloor>log 2 x\<rfloor>"
  shows "pw 52 \<le> x * pw (52 - e)" and "x * pw (52 - e) < pw 53"
proof -
  have a: "pw e \<le> x" and b: "x < pw (e + 1)"
    using log2_bounds [OF assms(1)] assms(2) by simp_all
  have "pw e * pw (52 - e) \<le> x * pw (52 - e)"
    using a by (simp add: mult_right_mono)
  moreover have "pw e * pw (52 - e) = pw 52"
    using pw_add [of e "52 - e"] by simp
  ultimately show "pw 52 \<le> x * pw (52 - e)" by simp
  have "x * pw (52 - e) < pw (e + 1) * pw (52 - e)"
    using b by (simp add: mult_strict_right_mono)
  moreover have "pw (e + 1) * pw (52 - e) = pw 53"
    using pw_add [of "e + 1" "52 - e"] by (simp add: add.commute)
  ultimately show "x * pw (52 - e) < pw 53" by simp
qed

lemma pos53_bounds:
  assumes "0 < x"
  shows "pw \<lfloor>log 2 x\<rfloor> \<le> pos53 x" and "pos53 x \<le> pw (\<lfloor>log 2 x\<rfloor> + 1)"
proof -
  define e where "e = \<lfloor>log 2 x\<rfloor>"
  define s where "s = x * pw (52 - e)"
  have sb: "pw 52 \<le> s" "s < pw 53" using scaled_bounds [OF assms e_def] by (simp_all add: s_def)
  have i52: "pw 52 = of_int (2 ^ 52)" and i53: "pw 53 = of_int (2 ^ 53)"
    by (simp_all add: pw_nat)
  have "round_even (of_int (2 ^ 52)) \<le> round_even s"
    by (rule round_even_mono) (use sb i52 in simp)
  then have lo: "pw 52 \<le> of_int (round_even s)"
    unfolding i52 round_even_of_int by linarith
  have "round_even s \<le> round_even (of_int (2 ^ 53))"
    by (rule round_even_mono) (use sb i53 in simp)
  then have hi: "of_int (round_even s) \<le> pw 53"
    unfolding i53 round_even_of_int by linarith
  have e1: "pw 52 * pw (e - 52) = pw e"
    using pw_add [of 52 "e - 52"] by simp
  have e2: "pw 53 * pw (e - 52) = pw (e + 1)"
    using pw_add [of 53 "e - 52"] by (simp add: add.commute)
  have p: "pos53 x = of_int (round_even s) * pw (e - 52)"
    using assms by (simp add: pos53_alt e_def s_def)
  have "pw e = pw 52 * pw (e - 52)" using e1 by simp
  also have "\<dots> \<le> of_int (round_even s) * pw (e - 52)"
    by (rule mult_right_mono [OF lo]) simp
  finally show "pw \<lfloor>log 2 x\<rfloor> \<le> pos53 x"
    unfolding p e_def .
  have "of_int (round_even s) * pw (e - 52) \<le> pw 53 * pw (e - 52)"
    by (rule mult_right_mono [OF hi]) simp
  also have "\<dots> = pw (e + 1)" using e2 by simp
  finally show "pos53 x \<le> pw (\<lfloor>log 2 x\<rfloor> + 1)"
    unfolding p e_def .
qed

lemma pos53_pos: "0 < x \<Longrightarrow> 0 < pos53 x"
  using pos53_bounds(1) [of x] pw_pos [of "\<lfloor>log 2 x\<rfloor>"] by linarith

lemma pos53_mono:
  assumes "0 < x" "x \<le> y"
  shows "pos53 x \<le> pos53 y"
proof -
  have y: "0 < y" using assms by simp
  have le: "\<lfloor>log 2 x\<rfloor> \<le> \<lfloor>log 2 y\<rfloor>"
    using assms by (intro floor_mono) (simp add: log_le_cancel_iff)
  show ?thesis
  proof (cases "\<lfloor>log 2 x\<rfloor> = \<lfloor>log 2 y\<rfloor>")
    case True
    define e where "e = \<lfloor>log 2 y\<rfloor>"
    have "x * pw (52 - e) \<le> y * pw (52 - e)"
      using assms by (simp add: mult_right_mono)
    then have "round_even (x * pw (52 - e)) \<le> round_even (y * pw (52 - e))"
      by (rule round_even_mono)
    then have "of_int (round_even (x * pw (52 - e))) * pw (e - 52)
        \<le> of_int (round_even (y * pw (52 - e))) * pw (e - 52)"
      by (simp add: mult_right_mono)
    then show ?thesis
      using assms(1) y by (simp add: pos53_alt True e_def)
  next
    case False
    then have "\<lfloor>log 2 x\<rfloor> + 1 \<le> \<lfloor>log 2 y\<rfloor>" using le by linarith
    then have "pw (\<lfloor>log 2 x\<rfloor> + 1) \<le> pw \<lfloor>log 2 y\<rfloor>"
      by (rule pw_mono)
    then show ?thesis
      using pos53_bounds(2) [OF assms(1)] pos53_bounds(1) [OF y] by linarith
  qed
qed

lemma round53_mono: "x \<le> y \<Longrightarrow> round53 x \<le> round53 y"
  using pos53_mono [of x y] pos53_mono [of "- y" "- x"] pos53_pos [of x] pos53_pos [of y]
    pos53_pos [of "- x"] pos53_pos [of "- y"]
  by (auto simp: round53_def)

lemma round53_sign: "(0 < round53 x \<longleftrightarrow> 0 < x) \<and> (round53 x < 0 \<longleftrightarrow> x < 0)"
  using pos53_pos [of x] pos53_pos [of "- x"] by (auto simp: round53_def)

lemma pw_less_cancel: "pw a < pw b \<Longrightarrow> a < b"
  using pw_mono [of b a] by linarith

text \<open>
  A real with a significand of at most 53 bits is rounded to itself, whatever its
  exponent: so are the whole numbers below \<open>2^53\<close> in magnitude, and the multiples of
  \<open>2^-1074\<close> below \<open>2^-1022\<close> in magnitude, which is where the sums and differences of
  two binary64 values lie when they are that small.
\<close>

lemma pos53_representable:
  assumes "0 < a" "a < 2 ^ 53" "x = of_int a * pw c"
  shows "pos53 x = x"
proof -
  define e where "e = \<lfloor>log 2 x\<rfloor>"
  have x: "0 < x" using assms by simp
  have "x < of_int (2 ^ 53) * pw c"
    unfolding assms(3) using assms(2) by (intro mult_strict_right_mono) simp_all
  also have "\<dots> = pw (53 + c)" by (simp add: pw_add pw_nat)
  finally have "pw e < pw (53 + c)" using log2_bounds(1) [OF x] by (simp add: e_def)
  then have k: "0 \<le> c + 52 - e" using pw_less_cancel by fastforce
  have "x * pw (52 - e) = of_int a * (pw c * pw (52 - e))" by (simp add: assms(3))
  also have "pw c * pw (52 - e) = pw (c + 52 - e)"
    using pw_add [of c "52 - e"] by (simp add: algebra_simps)
  also have "\<dots> = of_int (2 ^ nat (c + 52 - e))" using k by (rule pw_nat)
  finally have "x * pw (52 - e) = of_int (a * 2 ^ nat (c + 52 - e))" by simp
  then have "pos53 x = x * pw (52 - e) * pw (e - 52)"
    using x by (simp add: pos53_alt e_def del: of_int_mult of_int_power)
  also have "\<dots> = x * (pw (52 - e) * pw (e - 52))" by simp
  also have "pw (52 - e) * pw (e - 52) = 1"
    using pw_cancel [of "52 - e"] by simp
  finally show ?thesis by simp
qed

lemma pos53_of_int: "0 < n \<Longrightarrow> n < 2 ^ 53 \<Longrightarrow> pos53 (of_int n) = of_int n"
  using pos53_representable [of n "of_int n" 0] by (simp add: pw_def)

lemma round53_of_int: "\<bar>n\<bar> < 2 ^ 53 \<Longrightarrow> round53 (of_int n) = of_int n"
  using pos53_of_int [of n] pos53_of_int [of "- n"] by (auto simp: round53_def)

text \<open>
  The quotient of a whole number below \<open>2^53\<close> in magnitude by the number of
  milliseconds in a day is rounded to a value on the same side of every whole number, so
  its floor and its ceiling are those of the exact quotient.
\<close>

lemma pos53_day_quotient:
  assumes d: "0 < d" "d < 2 ^ 53" and y: "y = of_int d / 86400000"
  shows "y < of_int j \<Longrightarrow> pos53 y < of_int j"
    and "of_int j < y \<Longrightarrow> of_int j < pos53 y"
proof -
  define e where "e = \<lfloor>log 2 y\<rfloor>"
  define k where "k = 52 - e"
  have y0: "0 < y" using d y by simp
  have "y < pw 27" using d y by (simp add: pw_nat field_simps)
  then have "pw e < pw 27" using log2_bounds(1) [OF y0] by (simp add: e_def)
  then have k26: "26 \<le> k" using pw_less_cancel [of e 27] by (simp add: k_def)
  define S where "S = (2::int) ^ nat k"
  have S: "pw k = of_int S" using k26 by (simp add: pw_nat S_def)
  have "(2::int) ^ 26 \<le> 2 ^ nat k" using k26 by (intro power_increasing) simp_all
  then have S26: "67108864 \<le> S" by (simp add: S_def)
  have "pos53 y = of_int (round_even (y * pw (52 - e))) * pw (e - 52)"
    using y0 by (simp add: pos53_alt e_def)
  moreover have "e - 52 = - k" by (simp add: k_def)
  ultimately have p: "pos53 y = of_int (round_even (y * of_int S)) * pw (- k)"
    by (simp only: k_def [symmetric] S)
  have inv: "of_int S * pw (- k) = 1" using pw_cancel [of k] by (simp add: S)
  have ys: "y * of_int S = of_int (d * S) / 86400000" by (simp add: y)
  {
    assume "y < of_int j"
    then have "d < j * 86400000" using y by (simp add: field_simps)
    then have "d + 1 \<le> j * 86400000" by simp
    then have "(d + 1) * S \<le> j * 86400000 * S" using S26 by (intro mult_right_mono) simp_all
    then have "d * S + 43200001 \<le> j * S * 86400000" using S26 by (simp add: algebra_simps)
    then have "(of_int (d * S) :: real) + 43200001 \<le> of_int (j * S) * 86400000"
      by (metis (mono_tags, opaque_lifting) of_int_add of_int_le_iff of_int_mult of_int_numeral)
    then have "y * of_int S + 1 / 2 < of_int (j * S)" unfolding ys by (simp add: field_simps)
    then have "of_int (round_even (y * of_int S)) < (of_int (j * S) :: real)"
      using round_even_le [of "y * of_int S"] by linarith
    then have "round_even (y * of_int S) + 1 \<le> j * S" by linarith
    then have "(of_int (round_even (y * of_int S)) :: real) \<le> of_int (j * S) - 1"
      by (metis add_le_imp_le_diff of_int_1 of_int_diff of_int_le_iff)
    then have "pos53 y \<le> (of_int (j * S) - 1) * pw (- k)"
      unfolding p by (intro mult_right_mono) simp_all
    also have "\<dots> = of_int j * (of_int S * pw (- k)) - pw (- k)" by (simp add: algebra_simps)
    also have "\<dots> < of_int j" unfolding inv using pw_pos [of "- k"] by simp
    finally show "pos53 y < of_int j" .
  }
  {
    assume a: "of_int j < y"
    show "of_int j < pos53 y"
    proof (cases "j \<le> 0")
      case True
      then have "(of_int j :: real) \<le> 0" by simp
      then show ?thesis using pos53_pos [OF y0] by linarith
    next
      case False
      have "j * 86400000 < d" using a y by (simp add: field_simps)
      then have "j * 86400000 + 1 \<le> d" by simp
      then have "(j * 86400000 + 1) * S \<le> d * S" using S26 by (intro mult_right_mono) simp_all
      then have "j * S * 86400000 + 43200001 \<le> d * S" using S26 by (simp add: algebra_simps)
      then have "(of_int (j * S) :: real) * 86400000 + 43200001 \<le> of_int (d * S)"
        by (metis (mono_tags, opaque_lifting) of_int_add of_int_le_iff of_int_mult of_int_numeral)
      then have "of_int (j * S) < y * of_int S - 1 / 2" unfolding ys by (simp add: field_simps)
      then have "(of_int (j * S) :: real) < of_int (round_even (y * of_int S))"
        using round_even_ge [of "y * of_int S"] by linarith
      then have "j * S + 1 \<le> round_even (y * of_int S)" by linarith
      then have "(of_int (j * S) :: real) + 1 \<le> of_int (round_even (y * of_int S))"
        by (metis of_int_1 of_int_add of_int_le_iff)
      then have "(of_int (j * S) + 1) * pw (- k) \<le> pos53 y"
        unfolding p by (intro mult_right_mono) simp_all
      moreover have "(of_int (j * S) + 1) * pw (- k) = of_int j * (of_int S * pw (- k)) + pw (- k)"
        by (simp add: algebra_simps)
      ultimately have "of_int j + pw (- k) \<le> pos53 y" unfolding inv by simp
      then show ?thesis using pw_pos [of "- k"] by linarith
    qed
  }
qed

lemma pos53_day_quotient_ceiling:
  assumes "0 < d" "d < 2 ^ 53"
  shows "\<lceil>pos53 (of_int d / 86400000)\<rceil> = \<lceil>(of_int d / 86400000 :: real)\<rceil>"
    and "\<lfloor>pos53 (of_int d / 86400000)\<rfloor> = \<lfloor>(of_int d / 86400000 :: real)\<rfloor>"
proof -
  let ?y = "of_int d / 86400000 :: real"
  note sep = pos53_day_quotient [OF assms refl]
  have y0: "0 < ?y" using assms by simp
  show "\<lceil>pos53 ?y\<rceil> = \<lceil>?y\<rceil>"
  proof (cases "?y = of_int \<lceil>?y\<rceil>")
    case True
    have "0 < \<lceil>?y\<rceil>" using y0 by simp
    moreover have "\<lceil>?y\<rceil> < 2 ^ 53"
    proof -
      have "?y \<le> of_int d" using assms by (simp add: field_simps)
      moreover have "(of_int d :: real) < of_int (2 ^ 53)" using assms by (simp only: of_int_less_iff)
      ultimately have "(of_int \<lceil>?y\<rceil> :: real) < of_int (2 ^ 53)" using True by linarith
      then show ?thesis by (simp only: of_int_less_iff)
    qed
    ultimately have "pos53 (of_int \<lceil>?y\<rceil>) = of_int \<lceil>?y\<rceil>" by (rule pos53_of_int)
    then have "pos53 ?y = ?y" using True by metis
    then show ?thesis by (simp only:)
  next
    case False
    then have "?y < of_int \<lceil>?y\<rceil>" using le_of_int_ceiling [of ?y] by linarith
    then have up: "pos53 ?y < of_int \<lceil>?y\<rceil>" by (rule sep(1))
    have "of_int (\<lceil>?y\<rceil> - 1) < ?y" using ceiling_correct [of ?y] by simp
    then have "of_int (\<lceil>?y\<rceil> - 1) < pos53 ?y" by (rule sep(2))
    then show ?thesis using up by (intro ceiling_unique) simp_all
  qed
  show "\<lfloor>pos53 ?y\<rfloor> = \<lfloor>?y\<rfloor>"
  proof (cases "?y = of_int \<lfloor>?y\<rfloor>")
    case True
    have p: "0 < \<lfloor>?y\<rfloor>" using y0 True by (metis of_int_0_less_iff)
    moreover have "\<lfloor>?y\<rfloor> < 2 ^ 53"
    proof -
      have "?y \<le> of_int d" using assms by (simp add: field_simps)
      moreover have "(of_int d :: real) < of_int (2 ^ 53)" using assms by (simp only: of_int_less_iff)
      ultimately have "(of_int \<lfloor>?y\<rfloor> :: real) < of_int (2 ^ 53)" using True by linarith
      then show ?thesis by (simp only: of_int_less_iff)
    qed
    ultimately have "pos53 (of_int \<lfloor>?y\<rfloor>) = of_int \<lfloor>?y\<rfloor>" by (rule pos53_of_int)
    then have "pos53 ?y = ?y" using True by metis
    then show ?thesis by (simp only:)
  next
    case False
    then have "of_int \<lfloor>?y\<rfloor> < ?y" using of_int_floor_le [of ?y] by linarith
    then have lo: "of_int \<lfloor>?y\<rfloor> < pos53 ?y" by (rule sep(2))
    have "?y < of_int (\<lfloor>?y\<rfloor> + 1)" using floor_correct [of ?y] by simp
    then have "pos53 ?y < of_int (\<lfloor>?y\<rfloor> + 1)" by (rule sep(1))
    then show ?thesis using lo by (intro floor_unique) simp_all
  qed
qed

lemma round53_day_quotient_ceiling:
  assumes "\<bar>d\<bar> < 2 ^ 53"
  shows "\<lceil>round53 (of_int d / 86400000)\<rceil> = \<lceil>(of_int d / 86400000 :: real)\<rceil>"
proof -
  consider "0 < d" | "d = 0" | "d < 0" by linarith
  then show ?thesis
  proof cases
    case 1
    then show ?thesis using assms pos53_day_quotient_ceiling(1) [of d] by (simp add: round53_def)
  next
    case 2
    then show ?thesis by (simp add: round53_def)
  next
    case 3
    then have "\<lfloor>pos53 (of_int (- d) / 86400000)\<rfloor> = \<lfloor>(of_int (- d) / 86400000 :: real)\<rfloor>"
      using assms by (intro pos53_day_quotient_ceiling(2)) simp_all
    then show ?thesis using 3 by (simp add: round53_def ceiling_def)
  qed
qed


subsection \<open>Rounded results as Numbers\<close>

lemma fl_of_int: "\<bar>n\<bar> < 2 ^ 53 \<Longrightarrow> fl (of_int n) = Fin (of_int n)"
proof -
  assume a: "\<bar>n\<bar> < 2 ^ 53"
  then have "\<bar>of_int n :: real\<bar> < of_int (2 ^ 53)"
    by (metis of_int_abs of_int_less_iff)
  moreover have "(of_int (2 ^ 53) :: real) \<le> 2 ^ 1024" by simp
  ultimately have "\<bar>of_int n :: real\<bar> < 2 ^ 1024" by linarith
  then show ?thesis using a by (simp add: fl_def round53_of_int Let_def abs_less_iff)
qed

lemma fl_not_NaN [simp]: "fl x \<noteq> NaN"
  by (simp add: fl_def Let_def)

lemma fl_pos_iff [simp]: "js_lt (Fin 0) (fl x) \<longleftrightarrow> 0 < x"
proof -
  have "(2::real) ^ 1024 \<le> r \<Longrightarrow> 0 < r" for r
    using zero_less_power [of "2::real" 1024] by linarith
  then show ?thesis using round53_sign [of x] by (auto simp: fl_def Let_def)
qed

lemma fl_neg_iff [simp]: "js_lt (fl x) (Fin 0) \<longleftrightarrow> x < 0"
proof -
  have "r \<le> - ((2::real) ^ 1024) \<Longrightarrow> r < 0" for r
    using zero_less_power [of "2::real" 1024] by linarith
  moreover have "(2::real) ^ 1024 \<le> r \<Longrightarrow> 0 < r" for r
    using zero_less_power [of "2::real" 1024] by linarith
  ultimately show ?thesis using round53_sign [of x] by (auto simp: fl_def Let_def)
qed

lemma fl_mono: "x \<le> y \<Longrightarrow> js_le (fl x) (fl y)"
  using round53_mono [of x y] zero_less_power [of "2::real" 1024]
  by (auto simp: fl_def Let_def js_le_def isNaN_def)

lemma fl_day_quotient:
  assumes "\<bar>d\<bar> < 2 ^ 53"
  shows "Math_ceil (fl (of_int d / 86400000)) = Fin (of_int \<lceil>(of_int d / 86400000 :: real)\<rceil>)"
proof -
  let ?q = "of_int d / 86400000 :: real"
  have b: "(2::real) ^ 53 \<le> 2 ^ 1024" by simp
  have "?q \<le> of_int \<bar>d\<bar>" by (simp add: field_simps)
  then have "round53 ?q \<le> round53 (of_int \<bar>d\<bar>)" by (rule round53_mono)
  also have "\<dots> = of_int \<bar>d\<bar>" using assms by (intro round53_of_int) simp
  also have "\<dots> < of_int (2 ^ 53)" using assms by (simp only: of_int_less_iff)
  finally have up: "round53 ?q < 2 ^ 1024" using b by simp
  have "of_int (- \<bar>d\<bar>) \<le> ?q" by (simp add: field_simps)
  then have "round53 (of_int (- \<bar>d\<bar>)) \<le> round53 ?q" by (rule round53_mono)
  moreover have "round53 (of_int (- \<bar>d\<bar>)) = of_int (- \<bar>d\<bar>)"
    using assms by (intro round53_of_int) simp
  moreover have "(of_int (- (2 ^ 53)) :: real) < of_int (- \<bar>d\<bar>)"
    using assms by (simp only: of_int_less_iff)
  ultimately have lo: "- (2 ^ 1024) < round53 ?q" using b by simp
  show ?thesis using up lo round53_day_quotient_ceiling [OF assms]
    by (simp add: fl_def Let_def)
qed

section \<open>The spoilage engine: expiry, days remaining, status\<close>

subsection \<open>The Date arithmetic of the expiry\<close>

lemma DateFromTime_pos: "1 \<le> DateFromTime t"
proof -
  define doy where "doy = (let z = Day t + 719468;
          doe = z mod 146097;
          yoe = (doe - doe div 1460 + doe div 36524 - doe div 146096) div 365 in doe - (365 * yoe + yoe div 4 - yoe div 100))"
  have "(153 * ((5 * doy + 2) div 153) + 2) div 5 \<le> doy" by linarith
  then show ?thesis unfolding DateFromTime_def doy_def Let_def by linarith
qed

lemma DateFromTime_le: "DateFromTime t \<le> 31"
proof -
  define doy where "doy = (let z = Day t + 719468;
          doe = z mod 146097;
          yoe = (doe - doe div 1460 + doe div 36524 - doe div 146096) div 365 in doe - (365 * yoe + yoe div 4 - yoe div 100))"
  have "doy - 30 \<le> (153 * ((5 * doy + 2) div 153) + 2) div 5" by linarith
  then show ?thesis unfolding DateFromTime_def doy_def Let_def by linarith
qed

text \<open>The sum \<open>getDate() + shelfLifeDays\<close> is exact for a whole number of days up to \<open>2^52\<close>.\<close>

lemma getDate_add:
  assumes "0 < k" "k \<le> 2 ^ 52"
  shows "js_add (getDate h (Some T)) (Fin (of_int k)) =
         Fin (of_int (DateFromTime (LocalTime h T) + k))"
proof -
  have "\<bar>DateFromTime (LocalTime h T) + k\<bar> < 2 ^ 53"
    using DateFromTime_pos [of "LocalTime h T"] DateFromTime_le [of "LocalTime h T"] assms
    by simp
  then show ?thesis
    using fl_of_int [of "DateFromTime (LocalTime h T) + k"] by (simp add: getDate_def)
qed

lemma setDate_whole:
  "setDate h (Some T) (Fin (of_int (DateFromTime (LocalTime h T) + k))) = addCalendarDays h T k"
proof -
  let ?t = "LocalTime h T"
  have ti: "ToInteger (of_int (DateFromTime ?t + k)) = DateFromTime ?t + k"
    by (simp add: ToInteger_def)
  have "(Day ?t - (DateFromTime ?t - 1) + (DateFromTime ?t + k - 1)) * msPerDay + TimeWithinDay ?t
      = ?t + k * msPerDay"
    by (simp add: Day_def TimeWithinDay_def algebra_simps)
  then show ?thesis
    by (simp only: setDate_def ti addCalendarDays_def Let_def option.case number.case)
qed

lemma setDate_getDate:
  assumes "0 < k" "k \<le> 2 ^ 52"
  shows "setDate h (Some T) (js_add (getDate h (Some T)) (Fin (of_int k))) = addCalendarDays h T k"
  unfolding getDate_add [OF assms] by (rule setDate_whole)

text \<open>With a shelf life of half a day the sum is exact as well, and \<open>setDate\<close> drops the half.\<close>

lemma setDate_getDate_half:
  "setDate h (Some T) (js_add (getDate h (Some T)) (Fin (1 / 2))) = addCalendarDays h T 0"
proof -
  define D where "D = DateFromTime (LocalTime h T)"
  have D: "1 \<le> D" "D \<le> 31"
    using DateFromTime_pos [of "LocalTime h T"] DateFromTime_le [of "LocalTime h T"]
    by (simp_all add: D_def)
  define x :: real where "x = of_int D + 1 / 2"
  have "pw (- 1) = 1 / 2" by (simp add: pw_def power_int_minus inverse_eq_divide)
  then have "x = of_int (2 * D + 1) * pw (- 1)" by (simp add: x_def field_simps)
  moreover have "0 < 2 * D + 1" "2 * D + 1 < 2 ^ 53" using D by simp_all
  ultimately have "pos53 x = x" by (intro pos53_representable [of "2 * D + 1" x "- 1"])
  moreover have "0 < x" "x < 2 ^ 1024"
  proof -
    show "0 < x" using D by (simp add: x_def)
    have "x \<le> 32" using D by (simp add: x_def)
    moreover have "(32::real) < 2 ^ 1024" by simp
    ultimately show "x < 2 ^ 1024" by linarith
  qed
  ultimately have f: "fl x = Fin x" by (simp add: fl_def round53_def Let_def)
  have "ToInteger x = D + 0" using D by (simp add: x_def ToInteger_def)
  then have "setDate h (Some T) (Fin x) = setDate h (Some T) (Fin (of_int (D + 0)))"
    by (simp add: setDate_def ToInteger_def)
  also have "\<dots> = addCalendarDays h T 0" unfolding D_def by (rule setDate_whole)
  finally show ?thesis using f by (simp add: getDate_def D_def x_def)
qed

text \<open>
  A shelf life of \<open>k\<close> calendar days that leads from a valid Date to a valid Date is below
  \<open>2^52\<close> when the UTC offsets at the two ends are below one day.
\<close>

lemma shelf_life_bound:
  assumes "Date_of_string h p = Some T" "addCalendarDays h T k = Some E"
    "\<bar>LocalTZA_utc h T\<bar> < msPerDay"
    "\<bar>LocalTZA_local h (LocalTime h T + k * msPerDay)\<bar> < msPerDay"
  shows "k \<le> 2 ^ 52"
proof -
  have T: "\<bar>T\<bar> \<le> 8640000000000000"
    using assms(1) by (auto simp: Date_of_string_def TimeClip_def split: option.splits if_splits)
  have E: "E = T + LocalTZA_utc h T + k * msPerDay - LocalTZA_local h (LocalTime h T + k * msPerDay)"
    "\<bar>E\<bar> \<le> 8640000000000000"
    using assms(2) by (auto simp: addCalendarDays_def TimeClip_def UTC_def LocalTime_def split: if_splits)
  have "k * 86400000 \<le> 17280000000000000 + 2 * 86400000"
    using T E assms(3,4) by (simp add: msPerDay_def)
  then have "k \<le> 200000002" by simp
  then show ?thesis by simp
qed

subsection \<open>The two shapes of a result\<close>

lemma computeSpoilage_cases:
  "(\<forall>cur th. computeSpoilage h ing cur th = unknownResult) \<or>
   (\<exists>expiry. \<forall>cur th. computeSpoilage h ing cur th = verdict expiry cur th)"
  by (auto simp: computeSpoilage_def verdict_def Let_def split: option.splits)

lemma computeSpoilage_guarded:
  assumes "Ingredient.purchasedAt ing = Some p" "Date_of_string h p = Some T"
    "Ingredient.shelfLifeDays ing = Some (Fin n)" "0 < n"
  shows "computeSpoilage h ing cur th =
         verdict (setDate h (Some T) (js_add (getDate h (Some T)) (Fin n))) cur th"
proof -
  have "p \<noteq> []" using assms(2) by (auto simp: Date_of_string_def)
  then show ?thesis using assms
    by (simp add: computeSpoilage_def verdict_def truthy_def js_le_def isNaN_def getTime_def Let_def)
qed

lemma computeSpoilage_run:
  assumes "Ingredient.purchasedAt ing = Some p" "Date_of_string h p = Some T"
    "Ingredient.shelfLifeDays ing = Some (Fin (of_int k))" "0 < k" "k \<le> 2 ^ 52"
  shows "computeSpoilage h ing cur th = verdict (addCalendarDays h T k) cur th"
proof -
  have "0 < (of_int k :: real)" using assms(4) by simp
  then show ?thesis
    using computeSpoilage_guarded [OF assms(1-3), of cur th] setDate_getDate [OF assms(4,5), of h T]
    by simp
qed

text \<open>
  The difference of two time values less than \<open>2^53\<close> ms apart is exact, and the ceiling
  of its rounded quotient by the length of a day is the ceiling of the exact quotient.
\<close>

lemma days_exact:
  assumes "\<bar>E - now\<bar> < 2 ^ 53"
  shows "Math_ceil (js_div_pos (js_sub (getTime (Some E)) (getTime (Some now))) (of_int msPerDay))
         = Fin (of_int \<lceil>(of_int (E - now) :: real) / of_int msPerDay\<rceil>)"
proof -
  have "js_sub (getTime (Some E)) (getTime (Some now)) = fl (of_int (E - now))"
    by (simp add: getTime_def js_sub_def)
  also have "\<dots> = Fin (of_int (E - now))" using assms by (rule fl_of_int)
  finally show ?thesis using fl_day_quotient [OF assms] by (simp add: msPerDay_def)
qed

lemma verdict_valid:
  assumes "\<bar>E - now\<bar> < 2 ^ 53"
  shows "verdict (Some E) (Some now) th =
     (let d = \<lceil>(of_int (E - now) :: real) / of_int msPerDay\<rceil>
      in \<lparr>SpoilageResult.expiryDate = Some (Some E),
          SpoilageResult.daysRemaining = Some (Fin (of_int d)),
          SpoilageResult.spoilageStatus =
            (if d < 0 then Expired else if js_le (Fin (of_int d)) th then NearExpiry else Fresh)\<rparr>)"
  unfolding verdict_def days_exact [OF assms] by (simp add: Let_def)

lemma verdict_invalid:
  "verdict None (Some now) th =
     \<lparr>SpoilageResult.expiryDate = Some None, SpoilageResult.daysRemaining = Some NaN,
      SpoilageResult.spoilageStatus = Fresh\<rparr>"
  by (simp add: verdict_def getTime_def js_sub_def js_le_def isNaN_def)

lemma verdict_days:
  assumes "\<bar>E - now\<bar> < 2 ^ 53"
  shows "verdict (Some E) (Some now) th =
     \<lparr>SpoilageResult.expiryDate = Some (Some E),
      SpoilageResult.daysRemaining = Some (Fin (of_int (- ((now - E) div msPerDay)))),
      SpoilageResult.spoilageStatus =
        (if - ((now - E) div msPerDay) < 0 then Expired
         else if js_le (Fin (of_int (- ((now - E) div msPerDay)))) th then NearExpiry
         else Fresh)\<rparr>"
proof -
  have "\<lceil>(of_int (E - now) :: real) / of_int msPerDay\<rceil> = - ((now - E) div msPerDay)"
    by (simp only: ceiling_divide_eq_div minus_diff_eq)
  then show ?thesis by (simp only: verdict_valid [OF assms] Let_def)
qed

lemma example_parse:
  "Date_of_string exampleHost ''2024-01-01T00:00:00.000Z'' = Some 1704067200000"
  by (simp add: Date_of_string_def exampleHost_def TimeClip_def)

lemma example_addDays:
  "addCalendarDays exampleHost T k = TimeClip (T + k * msPerDay)"
  by (simp add: addCalendarDays_def exampleHost_def UTC_def LocalTime_def)

lemma newYork_parse:
  "Date_of_string newYorkHost ''2024-10-28T16:00:00.000Z'' = Some 1730131200000"
  by (simp add: Date_of_string_def newYorkHost_def TimeClip_def)

lemma late_parse:
  "Date_of_string lateHost ''+275760-09-11T00:00:00.000Z'' = Some 8639999827200000"
  by (simp add: Date_of_string_def lateHost_def TimeClip_def)

text \<open>A seven-day ingredient bought on 1 January 2024 at 00:00 UTC, on the example machine.\<close>

lemma example_week:
  assumes "\<bar>1704672000000 - now\<bar> < 2 ^ 53"
  shows "computeSpoilage exampleHost (exampleIngredient (Fin 7) ''2024-01-01T00:00:00.000Z'')
           (Some now) th =
         \<lparr>SpoilageResult.expiryDate = Some (Some 1704672000000),
          SpoilageResult.daysRemaining = Some (Fin (of_int (- ((now - 1704672000000) div msPerDay)))),
          SpoilageResult.spoilageStatus =
            (if - ((now - 1704672000000) div msPerDay) < 0 then Expired
             else if js_le (Fin (of_int (- ((now - 1704672000000) div msPerDay)))) th then NearExpiry
             else Fresh)\<rparr>"
proof -
  have "addCalendarDays exampleHost 1704067200000 7 = Some 1704672000000"
    by (simp add: example_addDays TimeClip_def msPerDay_def)
  then show ?thesis
    using computeSpoilage_run [of "exampleIngredient (Fin 7) ''2024-01-01T00:00:00.000Z''"
        "''2024-01-01T00:00:00.000Z''" exampleHost 1704067200000 7 "Some now" th]
      example_parse verdict_days [OF assms, of th]
    by (simp add: exampleIngredient_def)
qed

text \<open>A shelf life that puts the expiry outside the range of Dates.\<close>

lemma spoilage_out_of_range:
  "computeSpoilage exampleHost (exampleIngredient (Fin 200000000) ''2024-01-01T00:00:00.000Z'')
     (Some now) th =
     \<lparr>SpoilageResult.expiryDate = Some None,
      SpoilageResult.daysRemaining = Some NaN,
      SpoilageResult.spoilageStatus = Fresh\<rparr>"
proof -
  have "addCalendarDays exampleHost 1704067200000 200000000 = None"
    by (simp add: example_addDays TimeClip_def msPerDay_def)
  then show ?thesis
    using computeSpoilage_run [of "exampleIngredient (Fin 200000000) ''2024-01-01T00:00:00.000Z''"
        "''2024-01-01T00:00:00.000Z''" exampleHost 1704067200000 200000000 "Some now" th]
      example_parse
    by (simp add: exampleIngredient_def verdict_invalid)
qed

subsection \<open>Missing and malformed data\<close>

lemma computeSpoilage_call_typed:
  "computeSpoilage_call h clock (Value ing) (Value now) (Value th) =
   Inr (computeSpoilage h ing now th)"
  by (simp add: computeSpoilage_call_def computeSpoilage_def Let_def split: option.splits)

lemma computeSpoilage_call_default:
  "computeSpoilage_call h clock (Value ing) Undefined Undefined =
   Inr (computeSpoilage h ing (Some clock) DEFAULT_NEAR_EXPIRY_THRESHOLD_DAYS)"
  by (simp add: computeSpoilage_call_def computeSpoilage_def Let_def split: option.splits)

lemma computeSpoilage_call_total:
  "currentDate \<noteq> Null \<Longrightarrow>
   computeSpoilage_call h clock (Value ing) currentDate threshold \<noteq> Inl e"
  by (cases currentDate) (simp_all add: computeSpoilage_call_def Let_def split: option.splits)

lemma computeSpoilage_call_unknown:
  assumes "Ingredient.purchasedAt ing = None \<or> Ingredient.shelfLifeDays ing = None \<or>
     (\<exists>n. Ingredient.shelfLifeDays ing = Some n \<and> js_le n (Fin 0)) \<or>
     (\<exists>p. Ingredient.purchasedAt ing = Some p \<and> Date_of_string h p = None)"
  shows "computeSpoilage_call h clock (Value ing) currentDate threshold = Inr unknownResult"
  using assms
  by (auto simp: computeSpoilage_call_def getTime_def isNaN_def Let_def split: option.splits)

text \<open>
  Claim C2, as the code has it.  When \<open>purchasedAt\<close> is \<open>null\<close>, or \<open>shelfLifeDays\<close> is
  absent or \<open><= 0\<close>, or \<open>purchasedAt\<close> does not parse as a valid instant, \<open>computeSpoilage\<close>
  returns \<open>{expiryDate: null, daysRemaining: null, status: Unknown}\<close>, whatever is passed
  for the reference Date (a valid or an invalid Date, \<open>undefined\<close>, \<open>null\<close>) and for the
  threshold.  And a call with an ingredient object raises no error when the reference
  Date is a Date or is left out, whatever the threshold is: it returns a result.  For
  arguments of the declared types that result is the one of the function on those types;
  with the second and the third argument left out it is the one for the Date that the
  clock shows and the threshold 3.
\<close>

theorem computeSpoilage_unknown:
  "(Ingredient.purchasedAt ing = None \<or> Ingredient.shelfLifeDays ing = None \<or>
     (\<exists>n. Ingredient.shelfLifeDays ing = Some n \<and> js_le n (Fin 0)) \<or>
     (\<exists>p. Ingredient.purchasedAt ing = Some p \<and> Date_of_string h p = None) \<longrightarrow>
      computeSpoilage_call h clock (Value ing) currentDate threshold =
        Inr \<lparr>SpoilageResult.expiryDate = None, SpoilageResult.daysRemaining = None,
             SpoilageResult.spoilageStatus = Unknown\<rparr> \<and>
      computeSpoilage h ing now th =
        \<lparr>SpoilageResult.expiryDate = None, SpoilageResult.daysRemaining = None,
         SpoilageResult.spoilageStatus = Unknown\<rparr>) \<and>
   (currentDate \<noteq> Null \<longrightarrow>
      (\<forall>e. computeSpoilage_call h clock (Value ing) currentDate threshold \<noteq> Inl e)) \<and>
   computeSpoilage_call h clock (Value ing) (Value now) (Value th) =
     Inr (computeSpoilage h ing now th) \<and>
   computeSpoilage_call h clock (Value ing) Undefined Undefined =
     Inr (computeSpoilage h ing (Some clock) DEFAULT_NEAR_EXPIRY_THRESHOLD_DAYS)"
proof (intro conjI impI)
  assume a: "Ingredient.purchasedAt ing = None \<or> Ingredient.shelfLifeDays ing = None \<or>
     (\<exists>n. Ingredient.shelfLifeDays ing = Some n \<and> js_le n (Fin 0)) \<or>
     (\<exists>p. Ingredient.purchasedAt ing = Some p \<and> Date_of_string h p = None)"
  show "computeSpoilage_call h clock (Value ing) currentDate threshold =
        Inr \<lparr>SpoilageResult.expiryDate = None, SpoilageResult.daysRemaining = None,
             SpoilageResult.spoilageStatus = Unknown\<rparr>"
    using computeSpoilage_call_unknown [OF a] by (simp add: unknownResult_def)
  have "computeSpoilage_call h clock (Value ing) (Value now) (Value th) = Inr unknownResult"
    using a by (rule computeSpoilage_call_unknown)
  then show "computeSpoilage h ing now th =
        \<lparr>SpoilageResult.expiryDate = None, SpoilageResult.daysRemaining = None,
         SpoilageResult.spoilageStatus = Unknown\<rparr>"
    by (simp add: computeSpoilage_call_typed unknownResult_def)
next
  assume "currentDate \<noteq> Null"
  then show "\<forall>e. computeSpoilage_call h clock (Value ing) currentDate threshold \<noteq> Inl e"
    by (simp add: computeSpoilage_call_total)
next
  show "computeSpoilage_call h clock (Value ing) (Value now) (Value th) =
     Inr (computeSpoilage h ing now th)"
    by (rule computeSpoilage_call_typed)
next
  show "computeSpoilage_call h clock (Value ing) Undefined Undefined =
     Inr (computeSpoilage h ing (Some clock) DEFAULT_NEAR_EXPIRY_THRESHOLD_DAYS)"
    by (rule computeSpoilage_call_default)
qed

text \<open>
  The theorem at a record that was never bought, with \<open>null\<close> for the reference Date and
  the threshold left out; at one whose shelf life is zero and at one whose purchase date
  does not parse, with an invalid reference Date and a NaN threshold; and at a seven-day
  ingredient, with an invalid reference Date and \<open>null\<close> for the threshold, and with both
  left out, the clock showing the fourth day after the purchase.
\<close>

theorem computeSpoilage_unknown_witness:
  "computeSpoilage_call exampleHost 1704067200000 (Value neverBought) Null Undefined
     = Inr unknownResult \<and>
   computeSpoilage exampleHost (exampleIngredient (Fin 0) ''2024-01-01T00:00:00.000Z'')
     None NaN = unknownResult \<and>
   computeSpoilage exampleHost (exampleIngredient (Fin 7) ''yesterday'') None NaN
     = unknownResult \<and>
   computeSpoilage_call exampleHost 1704067200000
     (Value (exampleIngredient (Fin 7) ''2024-01-01T00:00:00.000Z'')) (Value None) Null
     \<noteq> Inl TypeError \<and>
   computeSpoilage_call exampleHost 1704412800000
     (Value (exampleIngredient (Fin 7) ''2024-01-01T00:00:00.000Z'')) Undefined Undefined =
     Inr \<lparr>SpoilageResult.expiryDate = Some (Some 1704672000000),
          SpoilageResult.daysRemaining = Some (Fin 3),
          SpoilageResult.spoilageStatus = NearExpiry\<rparr>"
proof (intro conjI)
  show "computeSpoilage_call exampleHost 1704067200000 (Value neverBought) Null Undefined
     = Inr unknownResult"
    using computeSpoilage_unknown [of neverBought exampleHost 1704067200000 Null Undefined]
    by (simp add: neverBought_def unknownResult_def)
  show "computeSpoilage exampleHost (exampleIngredient (Fin 0) ''2024-01-01T00:00:00.000Z'')
     None NaN = unknownResult"
    using computeSpoilage_unknown
      [of "exampleIngredient (Fin 0) ''2024-01-01T00:00:00.000Z''" exampleHost _ _ _ None NaN]
    by (simp add: exampleIngredient_def unknownResult_def js_le_def isNaN_def)
  show "computeSpoilage exampleHost (exampleIngredient (Fin 7) ''yesterday'') None NaN
     = unknownResult"
    using computeSpoilage_unknown
      [of "exampleIngredient (Fin 7) ''yesterday''" exampleHost _ _ _ None NaN]
    by (simp add: exampleIngredient_def unknownResult_def Date_of_string_def exampleHost_def)
  show "computeSpoilage_call exampleHost 1704067200000
     (Value (exampleIngredient (Fin 7) ''2024-01-01T00:00:00.000Z'')) (Value None) Null
     \<noteq> Inl TypeError"
    using computeSpoilage_unknown
      [of "exampleIngredient (Fin 7) ''2024-01-01T00:00:00.000Z''" exampleHost 1704067200000
          "Value None" Null]
    by simp
  have "\<bar>1704672000000 - 1704412800000 :: int\<bar> < 2 ^ 53" by simp
  then have "computeSpoilage exampleHost (exampleIngredient (Fin 7) ''2024-01-01T00:00:00.000Z'')
      (Some 1704412800000) DEFAULT_NEAR_EXPIRY_THRESHOLD_DAYS =
     \<lparr>SpoilageResult.expiryDate = Some (Some 1704672000000),
      SpoilageResult.daysRemaining = Some (Fin 3),
      SpoilageResult.spoilageStatus = NearExpiry\<rparr>"
    by (simp add: example_week msPerDay_def DEFAULT_NEAR_EXPIRY_THRESHOLD_DAYS_def js_le_def
        isNaN_def)
  then show "computeSpoilage_call exampleHost 1704412800000
     (Value (exampleIngredient (Fin 7) ''2024-01-01T00:00:00.000Z'')) Undefined Undefined =
     Inr \<lparr>SpoilageResult.expiryDate = Some (Some 1704672000000),
          SpoilageResult.daysRemaining = Some (Fin 3),
          SpoilageResult.spoilageStatus = NearExpiry\<rparr>"
    using computeSpoilage_unknown
      [of "exampleIngredient (Fin 7) ''2024-01-01T00:00:00.000Z''" exampleHost 1704412800000]
    by simp
qed

text \<open>
  Claim C2 as stated fails in its second half.  The default of the parameter
  \<open>currentDate\<close> applies to \<open>undefined\<close> only, so with \<open>null\<close> for it and an ingredient
  that passes the three guards, \<open>currentDate.getTime()\<close> raises a \<open>TypeError\<close>; and with
  \<open>null\<close> for the ingredient, \<open>ingredient.purchasedAt\<close> does.
\<close>

theorem computeSpoilage_raises_counterexample:
  "computeSpoilage_call exampleHost 1704067200000
     (Value (exampleIngredient (Fin 7) ''2024-01-01T00:00:00.000Z'')) Null (Value (Fin 3))
     = Inl TypeError \<and>
   computeSpoilage_call exampleHost 1704067200000 Null (Value (Some 1704067200000))
     (Value (Fin 3)) = Inl TypeError"
  using example_parse
  by (simp add: computeSpoilage_call_def exampleIngredient_def truthy_def js_le_def isNaN_def
      getTime_def Let_def)

subsection \<open>Monotonicity in the reference instant\<close>

lemma js_le_PosInf: "a \<noteq> NaN \<Longrightarrow> js_le a PosInf"
  by (cases a) (simp_all add: js_le_def isNaN_def)

lemma js_le_NegInf: "b \<noteq> NaN \<Longrightarrow> js_le NegInf b"
  by (cases b) (simp_all add: js_le_def isNaN_def)

lemma js_div_pos_mono:
  assumes "js_le a b" "0 < m"
  shows "js_le (js_div_pos a m) (js_div_pos b m)"
proof (cases a)
  case (Fin x)
  show ?thesis
  proof (cases b)
    case (Fin y)
    then have "x / m \<le> y / m" using assms \<open>a = Fin x\<close> by (simp add: js_le_def divide_right_mono)
    then show ?thesis using \<open>a = Fin x\<close> Fin by (simp add: fl_mono)
  next
    case PosInf
    then show ?thesis using \<open>a = Fin x\<close> by (simp add: js_le_PosInf)
  next
    case NegInf
    then show ?thesis using assms \<open>a = Fin x\<close> by (simp add: js_le_def isNaN_def)
  next
    case NaN
    then show ?thesis using assms by (simp add: js_le_def isNaN_def)
  qed
next
  case NegInf
  show ?thesis
  proof (cases b)
    case (Fin y)
    then show ?thesis using NegInf by (simp add: js_le_NegInf)
  qed (use assms NegInf in \<open>simp_all add: js_le_def isNaN_def\<close>)
next
  case PosInf
  then show ?thesis using assms by (cases b) (simp_all add: js_le_def isNaN_def)
next
  case NaN
  then show ?thesis using assms by (simp add: js_le_def isNaN_def)
qed

lemma Math_ceil_mono: "js_le a b \<Longrightarrow> js_le (Math_ceil a) (Math_ceil b)"
  by (cases a; cases b) (auto simp: js_le_def isNaN_def not_less intro: ceiling_mono)

lemma chain_mono:
  "js_le d2 d1 \<Longrightarrow>
   advances (if js_lt d1 (Fin 0) then Expired else if js_le d1 th then NearExpiry else Fresh)
     (if js_lt d2 (Fin 0) then Expired else if js_le d2 th then NearExpiry else Fresh)"
  by (cases d1; cases d2; cases th) (auto simp: js_le_def isNaN_def)

lemma verdict_monotone:
  assumes "now1 \<le> now2"
  shows "(e \<noteq> None \<longrightarrow>
           laterNotGreater (SpoilageResult.daysRemaining (verdict e (Some now1) th))
             (SpoilageResult.daysRemaining (verdict e (Some now2) th))) \<and>
         (SpoilageResult.daysRemaining (verdict e (Some now1) th) = Some NaN \<longleftrightarrow> e = None) \<and>
         (SpoilageResult.daysRemaining (verdict e (Some now2) th) = Some NaN \<longleftrightarrow> e = None) \<and>
         advances (SpoilageResult.spoilageStatus (verdict e (Some now1) th))
           (SpoilageResult.spoilageStatus (verdict e (Some now2) th))"
proof (cases e)
  case None
  then show ?thesis by (simp add: verdict_invalid)
next
  case (Some E)
  define d1 where
    "d1 = Math_ceil (js_div_pos (js_sub (getTime e) (getTime (Some now1))) (of_int msPerDay))"
  define d2 where
    "d2 = Math_ceil (js_div_pos (js_sub (getTime e) (getTime (Some now2))) (of_int msPerDay))"
  have "(of_int E :: real) + - of_int now2 \<le> of_int E + - of_int now1" using assms by simp
  then have "js_le (js_sub (getTime e) (getTime (Some now2))) (js_sub (getTime e) (getTime (Some now1)))"
    unfolding Some by (simp add: getTime_def js_sub_def fl_mono)
  then have "js_le (js_div_pos (js_sub (getTime e) (getTime (Some now2))) (of_int msPerDay))
     (js_div_pos (js_sub (getTime e) (getTime (Some now1))) (of_int msPerDay))"
    by (rule js_div_pos_mono) (simp add: msPerDay_def)
  then have m: "js_le d2 d1" unfolding d1_def d2_def by (rule Math_ceil_mono)
  then have n: "d1 \<noteq> NaN" "d2 \<noteq> NaN" by (auto simp: js_le_def isNaN_def)
  have v1: "verdict e (Some now1) th =
      \<lparr>SpoilageResult.expiryDate = Some e, SpoilageResult.daysRemaining = Some d1,
       SpoilageResult.spoilageStatus =
         (if js_lt d1 (Fin 0) then Expired else if js_le d1 th then NearExpiry else Fresh)\<rparr>"
    unfolding d1_def verdict_def Let_def ..
  have v2: "verdict e (Some now2) th =
      \<lparr>SpoilageResult.expiryDate = Some e, SpoilageResult.daysRemaining = Some d2,
       SpoilageResult.spoilageStatus =
         (if js_lt d2 (Fin 0) then Expired else if js_le d2 th then NearExpiry else Fresh)\<rparr>"
    unfolding d2_def verdict_def Let_def ..
  show ?thesis
    unfolding v1 v2 using chain_mono [OF m, of th] m n Some by simp
qed

lemma verdict_expiryDate: "SpoilageResult.expiryDate (verdict e cur th) = Some e"
  by (simp add: verdict_def Let_def)

text \<open>
  Claim C3, as the code has it.  For one ingredient and threshold and two reference
  instants \<open>now1 \<le> now2\<close>, the two results have the same \<open>expiryDate\<close>, and the status at
  \<open>now2\<close> is the status at \<open>now1\<close> or a later one in the order Fresh, NearExpiry, Expired
  (Unknown stays Unknown).  \<open>daysRemaining\<close> is NaN, at either instant, exactly when that
  \<open>expiryDate\<close> is an invalid Date; when it is not, the \<open>daysRemaining\<close> at \<open>now2\<close> is \<open><=\<close>
  the one at \<open>now1\<close>.
\<close>

theorem computeSpoilage_monotone:
  assumes "now1 \<le> now2"
    and "r1 = computeSpoilage h ing (Some now1) th"
    and "r2 = computeSpoilage h ing (Some now2) th"
  shows "SpoilageResult.expiryDate r2 = SpoilageResult.expiryDate r1 \<and>
         (SpoilageResult.daysRemaining r1 = Some NaN \<longleftrightarrow>
            SpoilageResult.expiryDate r1 = Some None) \<and>
         (SpoilageResult.daysRemaining r2 = Some NaN \<longleftrightarrow>
            SpoilageResult.expiryDate r1 = Some None) \<and>
         (SpoilageResult.expiryDate r1 \<noteq> Some None \<longrightarrow>
            laterNotGreater (SpoilageResult.daysRemaining r1) (SpoilageResult.daysRemaining r2)) \<and>
         advances (SpoilageResult.spoilageStatus r1) (SpoilageResult.spoilageStatus r2)"
proof -
  consider "\<forall>cur th. computeSpoilage h ing cur th = unknownResult"
    | expiry where "\<forall>cur th. computeSpoilage h ing cur th = verdict expiry cur th"
    using computeSpoilage_cases [of h ing] by blast
  then show ?thesis
  proof cases
    case 1
    then show ?thesis using assms(2,3) by (simp add: unknownResult_def)
  next
    case 2
    then show ?thesis
      using verdict_monotone [OF assms(1), of expiry th] assms(2,3)
      by (simp add: verdict_expiryDate)
  qed
qed

text \<open>
  The theorem one day and nine days after the purchase of a seven-day ingredient:
  \<open>daysRemaining\<close> goes from 6 to -2 and the status from Fresh to Expired.
\<close>

theorem computeSpoilage_monotone_witness:
  "SpoilageResult.daysRemaining
     (computeSpoilage exampleHost (exampleIngredient (Fin 7) ''2024-01-01T00:00:00.000Z'')
        (Some 1704153600000) (Fin 3)) = Some (Fin 6) \<and>
   SpoilageResult.daysRemaining
     (computeSpoilage exampleHost (exampleIngredient (Fin 7) ''2024-01-01T00:00:00.000Z'')
        (Some 1704844800000) (Fin 3)) = Some (Fin (- 2)) \<and>
   laterNotGreater
     (SpoilageResult.daysRemaining
        (computeSpoilage exampleHost (exampleIngredient (Fin 7) ''2024-01-01T00:00:00.000Z'')
           (Some 1704153600000) (Fin 3)))
     (SpoilageResult.daysRemaining
        (computeSpoilage exampleHost (exampleIngredient (Fin 7) ''2024-01-01T00:00:00.000Z'')
           (Some 1704844800000) (Fin 3))) \<and>
   advances
     (SpoilageResult.spoilageStatus
        (computeSpoilage exampleHost (exampleIngredient (Fin 7) ''2024-01-01T00:00:00.000Z'')
           (Some 1704153600000) (Fin 3)))
     (SpoilageResult.spoilageStatus
        (computeSpoilage exampleHost (exampleIngredient (Fin 7) ''2024-01-01T00:00:00.000Z'')
           (Some 1704844800000) (Fin 3)))"
proof -
  let ?r1 = "computeSpoilage exampleHost (exampleIngredient (Fin 7) ''2024-01-01T00:00:00.000Z'')
        (Some 1704153600000) (Fin 3)"
  let ?r2 = "computeSpoilage exampleHost (exampleIngredient (Fin 7) ''2024-01-01T00:00:00.000Z'')
        (Some 1704844800000) (Fin 3)"
  have le: "(1704153600000 :: int) \<le> 1704844800000" by simp
  have "\<bar>1704672000000 - 1704153600000 :: int\<bar> < 2 ^ 53" by simp
  then have r1: "?r1 =
     \<lparr>SpoilageResult.expiryDate = Some (Some 1704672000000),
      SpoilageResult.daysRemaining = Some (Fin 6),
      SpoilageResult.spoilageStatus = Fresh\<rparr>"
    by (simp add: example_week msPerDay_def js_le_def isNaN_def)
  have "\<bar>1704672000000 - 1704844800000 :: int\<bar> < 2 ^ 53" by simp
  then have r2: "?r2 =
     \<lparr>SpoilageResult.expiryDate = Some (Some 1704672000000),
      SpoilageResult.daysRemaining = Some (Fin (- 2)),
      SpoilageResult.spoilageStatus = Expired\<rparr>"
    by (simp add: example_week msPerDay_def)
  have e: "SpoilageResult.expiryDate ?r1 \<noteq> Some None" by (simp add: r1)
  have d: "SpoilageResult.daysRemaining ?r1 = Some (Fin 6)"
    "SpoilageResult.daysRemaining ?r2 = Some (Fin (- 2))"
    by (simp_all add: r1 r2)
  show ?thesis
    using computeSpoilage_monotone [OF le refl refl, of exampleHost
        "exampleIngredient (Fin 7) ''2024-01-01T00:00:00.000Z''" "Fin 3"] e d
    by blast
qed

text \<open>
  Claim C3 as stated fails for an ingredient whose expiry is outside the range of Dates:
  with a shelf life of two hundred million days \<open>daysRemaining\<close> is NaN at the purchase
  instant and one day later, and \<open>NaN <= NaN\<close> is false.
\<close>

theorem computeSpoilage_monotone_counterexample:
  "(1704067200000 :: int) \<le> 1704153600000 \<and>
   SpoilageResult.daysRemaining
     (computeSpoilage exampleHost (exampleIngredient (Fin 200000000) ''2024-01-01T00:00:00.000Z'')
        (Some 1704067200000) (Fin 3)) = Some NaN \<and>
   SpoilageResult.daysRemaining
     (computeSpoilage exampleHost (exampleIngredient (Fin 200000000) ''2024-01-01T00:00:00.000Z'')
        (Some 1704153600000) (Fin 3)) = Some NaN \<and>
   \<not> laterNotGreater
     (SpoilageResult.daysRemaining
        (computeSpoilage exampleHost (exampleIngredient (Fin 200000000) ''2024-01-01T00:00:00.000Z'')
           (Some 1704067200000) (Fin 3)))
     (SpoilageResult.daysRemaining
        (computeSpoilage exampleHost (exampleIngredient (Fin 200000000) ''2024-01-01T00:00:00.000Z'')
           (Some 1704153600000) (Fin 3)))"
  by (simp add: spoilage_out_of_range js_le_def isNaN_def)

subsection \<open>Valid data\<close>

text \<open>
  Claim C1, as the code has it.  Let \<open>purchasedAt\<close> parse as the instant \<open>T\<close> and
  \<open>shelfLifeDays\<close> be a whole number \<open>k > 0\<close>, on a machine whose UTC offsets at the
  purchase and at the expiry are below one day, and let the instant \<open>E\<close> that lies \<open>k\<close>
  local calendar days after \<open>T\<close> be in the range of Dates.  Then for every reference
  instant \<open>now\<close> less than \<open>2^53\<close> ms away from \<open>E\<close> the result has \<open>expiryDate = E\<close> and
  \<open>daysRemaining = d = ceil((E - now) / 1 day)\<close>, and its status, decided in this order,
  is Expired when \<open>d < 0\<close>, NearExpiry when \<open>d <= threshold\<close> and Fresh when
  \<open>d > threshold\<close>.  In particular, for \<open>shelfLifeDays = 7\<close> on a machine whose UTC
  offset at the expiry is the one at the purchase, at \<open>now = T\<close> plus four times 24 hours
  the result is \<open>daysRemaining = 3\<close> and NearExpiry under the default threshold.
\<close>

theorem computeSpoilage_valid:
  "(Ingredient.purchasedAt ing = Some p \<and> Date_of_string h p = Some T \<and>
    Ingredient.shelfLifeDays ing = Some (Fin (of_int k)) \<and> 0 < k \<and>
    \<bar>LocalTZA_utc h T\<bar> < msPerDay \<and>
    \<bar>LocalTZA_local h (LocalTime h T + k * msPerDay)\<bar> < msPerDay \<and>
    addCalendarDays h T k = Some E \<and> \<bar>E - now\<bar> < 2 ^ 53 \<and>
    r = computeSpoilage h ing (Some now) th \<and>
    d = \<lceil>(of_int (E - now) :: real) / of_int msPerDay\<rceil> \<longrightarrow>
      SpoilageResult.expiryDate r = Some (Some E) \<and>
      SpoilageResult.daysRemaining r = Some (Fin (of_int d)) \<and>
      (d < 0 \<longrightarrow> SpoilageResult.spoilageStatus r = Expired) \<and>
      (0 \<le> d \<and> js_le (Fin (of_int d)) th \<longrightarrow> SpoilageResult.spoilageStatus r = NearExpiry) \<and>
      (0 \<le> d \<and> js_lt th (Fin (of_int d)) \<longrightarrow> SpoilageResult.spoilageStatus r = Fresh)) \<and>
   (Ingredient.purchasedAt ing = Some p \<and> Date_of_string h p = Some T \<and>
    Ingredient.shelfLifeDays ing = Some (Fin 7) \<and>
    LocalTZA_local h (LocalTime h T + 7 * msPerDay) = LocalTZA_utc h T \<and>
    \<bar>T + 7 * msPerDay\<bar> \<le> 8640000000000000 \<longrightarrow>
      computeSpoilage h ing (Some (T + 4 * msPerDay)) DEFAULT_NEAR_EXPIRY_THRESHOLD_DAYS =
        \<lparr>SpoilageResult.expiryDate = Some (Some (T + 7 * msPerDay)),
         SpoilageResult.daysRemaining = Some (Fin 3),
         SpoilageResult.spoilageStatus = NearExpiry\<rparr>)"
proof (intro conjI impI)
  assume a: "Ingredient.purchasedAt ing = Some p \<and> Date_of_string h p = Some T \<and>
    Ingredient.shelfLifeDays ing = Some (Fin (of_int k)) \<and> 0 < k \<and>
    \<bar>LocalTZA_utc h T\<bar> < msPerDay \<and>
    \<bar>LocalTZA_local h (LocalTime h T + k * msPerDay)\<bar> < msPerDay \<and>
    addCalendarDays h T k = Some E \<and> \<bar>E - now\<bar> < 2 ^ 53 \<and>
    r = computeSpoilage h ing (Some now) th \<and>
    d = \<lceil>(of_int (E - now) :: real) / of_int msPerDay\<rceil>"
  then have k: "k \<le> 2 ^ 52" using shelf_life_bound [of h p T k E] by blast
  have b: "\<bar>E - now\<bar> < 2 ^ 53" using a by blast
  have r: "r = \<lparr>SpoilageResult.expiryDate = Some (Some E),
          SpoilageResult.daysRemaining = Some (Fin (of_int d)),
          SpoilageResult.spoilageStatus =
            (if d < 0 then Expired else if js_le (Fin (of_int d)) th then NearExpiry else Fresh)\<rparr>"
    using a k computeSpoilage_run [of ing p h T k "Some now" th]
    by (simp only: verdict_valid [OF b] Let_def)
  show "SpoilageResult.expiryDate r = Some (Some E)" by (simp add: r)
  show "SpoilageResult.daysRemaining r = Some (Fin (of_int d))" by (simp add: r)
  show "SpoilageResult.spoilageStatus r = Expired" if "d < 0" using that by (simp add: r)
  show "SpoilageResult.spoilageStatus r = NearExpiry" if "0 \<le> d \<and> js_le (Fin (of_int d)) th"
    using that by (simp add: r)
  show "SpoilageResult.spoilageStatus r = Fresh" if "0 \<le> d \<and> js_lt th (Fin (of_int d))"
    using that by (auto simp: r js_le_def)
next
  assume a: "Ingredient.purchasedAt ing = Some p \<and> Date_of_string h p = Some T \<and>
    Ingredient.shelfLifeDays ing = Some (Fin 7) \<and>
    LocalTZA_local h (LocalTime h T + 7 * msPerDay) = LocalTZA_utc h T \<and>
    \<bar>T + 7 * msPerDay\<bar> \<le> 8640000000000000"
  then have e: "addCalendarDays h T 7 = Some (T + 7 * msPerDay)"
    by (simp add: addCalendarDays_def UTC_def TimeClip_def) (simp add: LocalTime_def)
  have b: "\<bar>T + 7 * msPerDay - (T + 4 * msPerDay)\<bar> < 2 ^ 53" by (simp add: msPerDay_def)
  have "(T + 4 * msPerDay - (T + 7 * msPerDay)) div msPerDay = - 3"
    by (simp add: msPerDay_def)
  then have "verdict (Some (T + 7 * msPerDay)) (Some (T + 4 * msPerDay)) (Fin 3) =
     \<lparr>SpoilageResult.expiryDate = Some (Some (T + 7 * msPerDay)),
         SpoilageResult.daysRemaining = Some (Fin 3),
         SpoilageResult.spoilageStatus = NearExpiry\<rparr>"
    by (simp add: verdict_days [OF b] js_le_def isNaN_def)
  then show "computeSpoilage h ing (Some (T + 4 * msPerDay)) DEFAULT_NEAR_EXPIRY_THRESHOLD_DAYS =
        \<lparr>SpoilageResult.expiryDate = Some (Some (T + 7 * msPerDay)),
         SpoilageResult.daysRemaining = Some (Fin 3),
         SpoilageResult.spoilageStatus = NearExpiry\<rparr>"
    using a e computeSpoilage_run [of ing p h T 7 "Some (T + 4 * msPerDay)" "Fin 3"]
    by (simp add: DEFAULT_NEAR_EXPIRY_THRESHOLD_DAYS_def)
qed

text \<open>
  The theorem for a seven-day ingredient bought on 1 January 2024 at 00:00 UTC: 0.1 day
  before the expiry \<open>daysRemaining\<close> is 1, and four days after the purchase it is 3.
\<close>

theorem computeSpoilage_valid_witness:
  "computeSpoilage exampleHost (exampleIngredient (Fin 7) ''2024-01-01T00:00:00.000Z'')
     (Some 1704663360000) (Fin 3) =
     \<lparr>SpoilageResult.expiryDate = Some (Some 1704672000000),
      SpoilageResult.daysRemaining = Some (Fin 1),
      SpoilageResult.spoilageStatus = NearExpiry\<rparr> \<and>
   computeSpoilage exampleHost (exampleIngredient (Fin 7) ''2024-01-01T00:00:00.000Z'')
     (Some (1704067200000 + 4 * msPerDay)) DEFAULT_NEAR_EXPIRY_THRESHOLD_DAYS =
     \<lparr>SpoilageResult.expiryDate = Some (Some (1704067200000 + 7 * msPerDay)),
      SpoilageResult.daysRemaining = Some (Fin 3),
      SpoilageResult.spoilageStatus = NearExpiry\<rparr>"
proof -
  let ?ing = "exampleIngredient (Fin 7) ''2024-01-01T00:00:00.000Z''"
  let ?r = "computeSpoilage exampleHost ?ing (Some 1704663360000) (Fin 3)"
  have c: "\<lceil>(of_int (1704672000000 - 1704663360000) :: real) / of_int msPerDay\<rceil> = 1"
    unfolding ceiling_divide_eq_div by (simp add: msPerDay_def)
  have h1: "Ingredient.purchasedAt ?ing = Some ''2024-01-01T00:00:00.000Z''"
    and h2: "Ingredient.shelfLifeDays ?ing = Some (Fin 7)"
    by (simp_all add: exampleIngredient_def)
  have h3: "addCalendarDays exampleHost 1704067200000 7 = Some 1704672000000"
    by (simp add: example_addDays TimeClip_def msPerDay_def)
  have h4: "LocalTZA_local exampleHost (LocalTime exampleHost 1704067200000 + 7 * msPerDay)
      = LocalTZA_utc exampleHost 1704067200000"
    by (simp add: exampleHost_def)
  have h5: "\<bar>1704067200000 + 7 * msPerDay\<bar> \<le> 8640000000000000"
    by (simp add: msPerDay_def)
  have h6: "\<bar>LocalTZA_utc exampleHost 1704067200000\<bar> < msPerDay"
    "\<bar>LocalTZA_local exampleHost (LocalTime exampleHost 1704067200000 + 7 * msPerDay)\<bar> < msPerDay"
    by (simp_all add: exampleHost_def msPerDay_def)
  have h7: "\<bar>1704672000000 - 1704663360000 :: int\<bar> < 2 ^ 53" by simp
  note t = computeSpoilage_valid [of ?ing "''2024-01-01T00:00:00.000Z''" exampleHost 1704067200000
                 7 1704672000000 1704663360000 ?r "Fin 3" 1]
  have "SpoilageResult.expiryDate ?r = Some (Some 1704672000000) \<and>
        SpoilageResult.daysRemaining ?r = Some (Fin 1) \<and>
        SpoilageResult.spoilageStatus ?r = NearExpiry"
    using t h1 h2 h3 h6 h7 c example_parse by (simp add: js_le_def isNaN_def)
  then have "?r = \<lparr>SpoilageResult.expiryDate = Some (Some 1704672000000),
      SpoilageResult.daysRemaining = Some (Fin 1),
      SpoilageResult.spoilageStatus = NearExpiry\<rparr>"
    by (cases ?r) simp
  then show ?thesis using t h1 h2 h4 h5 example_parse by simp
qed

text \<open>
  Four evaluations: a fractional shelf life, a change of UTC offset, and a reference
  instant far from the expiry; a very long shelf life is evaluated above.
\<close>

lemma spoilage_half_day:
  "computeSpoilage exampleHost (exampleIngredient (Fin (1 / 2)) ''2024-01-01T00:00:00.000Z'')
     (Some 1704067200000) (Fin 3) =
     \<lparr>SpoilageResult.expiryDate = Some (Some 1704067200000),
      SpoilageResult.daysRemaining = Some (Fin 0),
      SpoilageResult.spoilageStatus = NearExpiry\<rparr>"
proof -
  have "addCalendarDays exampleHost 1704067200000 0 = Some 1704067200000"
    by (simp add: example_addDays TimeClip_def)
  moreover have "\<bar>1704067200000 - 1704067200000 :: int\<bar> < 2 ^ 53" by simp
  ultimately show ?thesis
    using computeSpoilage_guarded [of "exampleIngredient (Fin (1 / 2)) ''2024-01-01T00:00:00.000Z''"
        "''2024-01-01T00:00:00.000Z''" exampleHost 1704067200000 "1 / 2" "Some 1704067200000" "Fin 3"]
      example_parse setDate_getDate_half [of exampleHost 1704067200000]
      verdict_days [of 1704067200000 1704067200000 "Fin 3"]
    by (simp add: exampleIngredient_def js_le_def isNaN_def)
qed

lemma spoilage_newYork:
  "computeSpoilage newYorkHost (exampleIngredient (Fin 7) ''2024-10-28T16:00:00.000Z'')
     (Some (1730131200000 + 4 * 86400000)) (Fin 3) =
     \<lparr>SpoilageResult.expiryDate = Some (Some (1730131200000 + 7 * 86400000 + 3600000)),
      SpoilageResult.daysRemaining = Some (Fin 4),
      SpoilageResult.spoilageStatus = Fresh\<rparr>"
proof -
  have "addCalendarDays newYorkHost 1730131200000 7 = Some 1730739600000"
    by (simp add: addCalendarDays_def newYorkHost_def UTC_def LocalTime_def TimeClip_def msPerDay_def)
  moreover have "(1730131200000 + 4 * 86400000 - 1730739600000) div msPerDay = - 4"
    by (simp add: msPerDay_def)
  moreover have "\<bar>1730739600000 - (1730131200000 + 4 * 86400000) :: int\<bar> < 2 ^ 53" by simp
  ultimately show ?thesis
    using computeSpoilage_run [of "exampleIngredient (Fin 7) ''2024-10-28T16:00:00.000Z''"
        "''2024-10-28T16:00:00.000Z''" newYorkHost 1730131200000 7 "Some (1730131200000 + 4 * 86400000)" "Fin 3"]
      newYork_parse verdict_days [of 1730739600000 "1730131200000 + 4 * 86400000" "Fin 3"]
    by (simp add: exampleIngredient_def js_le_def isNaN_def)
qed

lemma round53_tie: "round53 12959999913600001 = 12959999913600000"
proof -
  have a: "pw (- 1) = 1 / 2" and b: "pw 1 = 2"
    by (simp_all add: pw_def power_int_minus inverse_eq_divide)
  have "\<lfloor>12959999913600001 / 2 :: real\<rfloor> = 6479999956800000"
    by (rule floor_unique) simp_all
  then have r: "round_even (12959999913600001 / 2) = 6479999956800000"
    by (simp add: round_even_def)
  have "pos53 12959999913600001 =
        of_int (round_even (12959999913600001 * pw (52 - 53))) * pw (53 - 52)"
    by (rule pos53_eval) (simp_all add: pw_nat)
  then have "pos53 12959999913600001 = 12959999913600000"
    by (simp add: a b r)
  then show ?thesis by (simp add: round53_def)
qed

lemma spoilage_far_apart:
  "computeSpoilage lateHost (exampleIngredient (Fin 1) ''+275760-09-11T00:00:00.000Z'')
     (Some (- 4320000000000001)) (Fin 3) =
     \<lparr>SpoilageResult.expiryDate = Some (Some 8639999913600000),
      SpoilageResult.daysRemaining = Some (Fin 149999999),
      SpoilageResult.spoilageStatus = Fresh\<rparr>"
proof -
  have e: "addCalendarDays lateHost 8639999827200000 1 = Some 8639999913600000"
    by (simp add: addCalendarDays_def lateHost_def UTC_def LocalTime_def TimeClip_def msPerDay_def)
  have "(12959999913600000 :: real) < 2 ^ 1024" by simp
  then have s: "js_sub (Fin 8639999913600000) (Fin (- 4320000000000001)) = Fin 12959999913600000"
    by (simp add: js_sub_def fl_def round53_tie Let_def)
  have "fl (of_int 149999999) = Fin (of_int 149999999)" by (rule fl_of_int) simp
  then have "js_div_pos (Fin 12959999913600000) (of_int msPerDay) = Fin 149999999"
    by (simp add: msPerDay_def)
  then have "verdict (Some 8639999913600000) (Some (- 4320000000000001)) (Fin 3) =
     \<lparr>SpoilageResult.expiryDate = Some (Some 8639999913600000),
      SpoilageResult.daysRemaining = Some (Fin 149999999),
      SpoilageResult.spoilageStatus = Fresh\<rparr>"
    using s by (simp add: verdict_def getTime_def js_le_def isNaN_def)
  then show ?thesis
    using computeSpoilage_run [of "exampleIngredient (Fin 1) ''+275760-09-11T00:00:00.000Z''"
        "''+275760-09-11T00:00:00.000Z''" lateHost 8639999827200000 1
        "Some (- 4320000000000001)" "Fin 3"]
      late_parse e
    by (simp add: exampleIngredient_def)
qed

text \<open>
  Claim C1 as stated fails in four ways.  A shelf life of half a day passes the guard
  \<open>shelfLifeDays > 0\<close>, but \<open>setDate\<close> drops the fraction: at the instant of purchase the
  expiry is the purchase instant and \<open>daysRemaining\<close> is 0, where the claim has the expiry
  twelve hours later and \<open>daysRemaining = ceil(0.5) = 1\<close>.  A shelf life of two hundred
  million days puts the expiry outside the range of Dates: the expiry is an invalid Date,
  \<open>daysRemaining\<close> is NaN and the status Fresh.  In New York a purchase on 28 October
  2024 at noon expires on 4 November at noon local time, which is seven days and one hour
  later; on 1 November at noon, four days after the purchase by the clock and by the
  calendar, \<open>daysRemaining\<close> is 4 and the status Fresh, where the claim has 3 and
  NearExpiry.  And for an expiry on 12 September 275760 and a reference instant
  12959999913600001 ms before it, the difference is rounded to 12959999913600000 ms,
  which is 149999999 days, and \<open>daysRemaining\<close> is 149999999, where the ceiling of the
  quotient is 150000000.
\<close>

theorem computeSpoilage_valid_counterexample:
  "computeSpoilage exampleHost (exampleIngredient (Fin (1 / 2)) ''2024-01-01T00:00:00.000Z'')
     (Some 1704067200000) (Fin 3) =
     \<lparr>SpoilageResult.expiryDate = Some (Some 1704067200000),
      SpoilageResult.daysRemaining = Some (Fin 0),
      SpoilageResult.spoilageStatus = NearExpiry\<rparr> \<and>
   SpoilageResult.daysRemaining
     (computeSpoilage exampleHost (exampleIngredient (Fin (1 / 2)) ''2024-01-01T00:00:00.000Z'')
        (Some 1704067200000) (Fin 3)) \<noteq>
     Some (Fin (of_int
       \<lceil>((1704067200000 + 1 / 2 * 86400000) - 1704067200000) / 86400000 :: real\<rceil>)) \<and>
   computeSpoilage exampleHost (exampleIngredient (Fin 200000000) ''2024-01-01T00:00:00.000Z'')
     (Some 1704067200000) (Fin 3) =
     \<lparr>SpoilageResult.expiryDate = Some None,
      SpoilageResult.daysRemaining = Some NaN,
      SpoilageResult.spoilageStatus = Fresh\<rparr> \<and>
   computeSpoilage newYorkHost (exampleIngredient (Fin 7) ''2024-10-28T16:00:00.000Z'')
     (Some (1730131200000 + 4 * 86400000)) (Fin 3) =
     \<lparr>SpoilageResult.expiryDate = Some (Some (1730131200000 + 7 * 86400000 + 3600000)),
      SpoilageResult.daysRemaining = Some (Fin 4),
      SpoilageResult.spoilageStatus = Fresh\<rparr> \<and>
   computeSpoilage lateHost (exampleIngredient (Fin 1) ''+275760-09-11T00:00:00.000Z'')
     (Some (- 4320000000000001)) (Fin 3) =
     \<lparr>SpoilageResult.expiryDate = Some (Some 8639999913600000),
      SpoilageResult.daysRemaining = Some (Fin 149999999),
      SpoilageResult.spoilageStatus = Fresh\<rparr> \<and>
   SpoilageResult.daysRemaining
     (computeSpoilage lateHost (exampleIngredient (Fin 1) ''+275760-09-11T00:00:00.000Z'')
        (Some (- 4320000000000001)) (Fin 3)) \<noteq>
     Some (Fin (of_int
       \<lceil>(8639999913600000 - (- 4320000000000001)) / 86400000 :: real\<rceil>))"
proof -
  have "\<lceil>((1704067200000 + 1 / 2 * 86400000) - 1704067200000) / 86400000 :: real\<rceil> = 1"
    by (rule ceiling_unique) simp_all
  then have 1: "SpoilageResult.daysRemaining
     (computeSpoilage exampleHost (exampleIngredient (Fin (1 / 2)) ''2024-01-01T00:00:00.000Z'')
        (Some 1704067200000) (Fin 3)) \<noteq>
     Some (Fin (of_int
       \<lceil>((1704067200000 + 1 / 2 * 86400000) - 1704067200000) / 86400000 :: real\<rceil>))"
    unfolding spoilage_half_day by simp
  have "\<lceil>(8639999913600000 - (- 4320000000000001)) / 86400000 :: real\<rceil> = 150000000"
    by (rule ceiling_unique) simp_all
  then have 2: "SpoilageResult.daysRemaining
     (computeSpoilage lateHost (exampleIngredient (Fin 1) ''+275760-09-11T00:00:00.000Z'')
        (Some (- 4320000000000001)) (Fin 3)) \<noteq>
     Some (Fin (of_int
       \<lceil>(8639999913600000 - (- 4320000000000001)) / 86400000 :: real\<rceil>))"
    unfolding spoilage_far_apart by simp
  show ?thesis
    by (intro conjI spoilage_half_day spoilage_out_of_range spoilage_newYork spoilage_far_apart 1 2)
qed

section \<open>Properties of the urgency sort\<close>

subsection \<open>The sort rearranges and commutes with dereferencing\<close>

lemma mset_insertBy: "mset (insertBy cmp x ys) = add_mset x (mset ys)"
  by (induction ys) auto

lemma mset_Array_sort: "mset (Array_sort cmp xs) = mset xs"
  by (induction xs) (auto simp: Array_sort_def mset_insertBy)

lemma map_insertBy:
  "map f (insertBy (\<lambda>x y. c (f x) (f y)) x ys) = insertBy c (f x) (map f ys)"
  by (induction ys) auto

lemma map_Array_sort:
  "map f (Array_sort (\<lambda>x y. c (f x) (f y)) xs) = Array_sort c (map f xs)"
  by (induction xs) (auto simp: Array_sort_def map_insertBy)

subsection \<open>The comparator as a lexicographic key\<close>















subsection \<open>The result is a new array\<close>

text \<open>
  Claim C10.  Called on an allocated array, \<open>sortByExpiryUrgency\<close> returns an array that
  was not allocated before (so it is not the input array), which holds the same
  references with the same multiplicities as the input array; every array that existed
  before the call, the input array among them, holds what it held, and no object is
  changed.  The contents of the result are the sorted contents of the input.
\<close>

theorem sortByExpiryUrgency_mem_copy:
  assumes "a < fresh m" and "sortByExpiryUrgency_mem a m = (result, m')"
  shows "result \<noteq> a \<and> \<not> result < fresh m \<and>
         (\<forall>b. b \<noteq> result \<longrightarrow> arrays m' b = arrays m b) \<and>
         objects m' = objects m \<and>
         mset (arrays m' result) = mset (arrays m a) \<and>
         map (objects m') (arrays m' result) = sortByExpiryUrgency (map (objects m) (arrays m a))"
  using assms
  by (auto simp: sortByExpiryUrgency_mem_def spread_def sort_in_place_def mset_Array_sort
        sortByExpiryUrgency_def map_Array_sort)

text \<open>The theorem at a memory with one array of three entries.\<close>

theorem sortByExpiryUrgency_mem_copy_witness:
  "fst (sortByExpiryUrgency_mem 0 exampleMemory) = 1 \<and>
   arrays (snd (sortByExpiryUrgency_mem 0 exampleMemory)) 0 = [0, 1, 2] \<and>
   arrays (snd (sortByExpiryUrgency_mem 0 exampleMemory)) 1 = [1, 0, 2] \<and>
   objects (snd (sortByExpiryUrgency_mem 0 exampleMemory)) = objects exampleMemory \<and>
   mset (arrays (snd (sortByExpiryUrgency_mem 0 exampleMemory)) 1) = mset [0, 1, 2]"
proof -
  have a: "(0::nat) < fresh exampleMemory" by (simp add: exampleMemory_def)
  have f: "fst (sortByExpiryUrgency_mem 0 exampleMemory) = 1"
    by (simp add: sortByExpiryUrgency_mem_def spread_def sort_in_place_def exampleMemory_def)
  have s: "arrays (snd (sortByExpiryUrgency_mem 0 exampleMemory)) 1 = [1, 0, 2]"
    by (simp add: sortByExpiryUrgency_mem_def spread_def sort_in_place_def exampleMemory_def
        Array_sort_def compareUrgency_def exampleEntry_def)
  have i: "arrays exampleMemory 0 = [0, 1, 2]" by (simp add: exampleMemory_def)
  have e: "sortByExpiryUrgency_mem 0 exampleMemory =
      (1, snd (sortByExpiryUrgency_mem 0 exampleMemory))"
    using f by (metis prod.collapse)
  show ?thesis
    using sortByExpiryUrgency_mem_copy [OF a e] f s i by simp
qed

section \<open>The action layer\<close>

subsection \<open>Requests that succeed and requests that fail\<close>

lemma request_succeed:
  "succeed (Suc n) db \<Longrightarrow> request db = (None, answered db)"
  by (cases db; cases "failures db") (auto simp: request_def succeed_def answered_def)

lemma request_fail:
  "failures db = Some e # fs \<Longrightarrow> request db = (Some e, answered db)"
  by (auto simp: request_def answered_def)

lemma succeed_answered [simp]:
  "succeed (Suc n) db \<Longrightarrow> succeed n (answered db)"
  by (cases "failures db") (auto simp: succeed_def answered_def)

lemma succeed_mono: "m \<le> n \<Longrightarrow> succeed n db \<Longrightarrow> succeed m db"
  using set_take_subset_set_take [of m n "failures db"] by (auto simp: succeed_def)

lemma succeed_ingredients [simp]:
  "succeed n (db\<lparr>ingredients := t\<rparr>) = succeed n db"
  by (simp add: succeed_def)

lemma ingredients_answered [simp]: "ingredients (answered db) = ingredients db"
  by (simp add: answered_def)

lemma Table_get_succeed:
  "succeed (Suc n) db \<Longrightarrow> Table_get key db = (Inr (ingredients db key), answered db)"
  by (simp add: Table_get_def request_succeed)

lemma Table_update_succeed:
  "succeed (Suc n) db \<Longrightarrow> ingredients db key = Some ing \<Longrightarrow>
   Table_update key c db =
     (Inr (if applyChanges c ing = ing then 0 else 1),
      (answered db)\<lparr>ingredients := (ingredients db)(key \<mapsto> applyChanges c ing)\<rparr>)"
  by (simp add: Table_update_def request_succeed)

subsection \<open>Buying: validation\<close>

text \<open>
  Claim C5.  When \<open>purchasedQty\<close> is zero, negative or not a finite number (NaN and both
  infinities included), \<open>buyIngredient\<close> returns a failure result, with \<open>success\<close> false,
  one of the two validation messages as \<open>error\<close> and the three payload fields \<open>null\<close>,
  and the database is the one it was given: the table is unchanged and no request has
  been made.
\<close>

theorem buyIngredient_rejects_quantity:
  assumes "\<forall>x. purchasedQty input = Fin x \<longrightarrow> x \<le> 0"
  shows "\<exists>msg. (msg = ''Purchase quantity must be greater than 0'' \<or>
               msg = ''Purchase quantity must be a valid number'') \<and>
     buyIngredient h clock input db =
       (\<lparr>success = False, error = Some msg, updatedIngredient = None,
         previousStockQty = None, newStockQty = None\<rparr>, db)"
  using assms
  by (cases "purchasedQty input") (auto simp: buyIngredient_def failureResult_def js_le_def isNaN_def)

text \<open>The theorem at the quantities 0, NaN and plus infinity.\<close>

theorem buyIngredient_rejects_quantity_witness:
  "buyIngredient exampleHost 1704067200000 \<lparr>ingredientId = ''a1'', purchasedQty = Fin 0\<rparr>
     (exampleDB []) =
     (failureResult ''Purchase quantity must be greater than 0'', exampleDB []) \<and>
   buyIngredient exampleHost 1704067200000 \<lparr>ingredientId = ''a1'', purchasedQty = NaN\<rparr>
     (exampleDB []) =
     (failureResult ''Purchase quantity must be a valid number'', exampleDB []) \<and>
   snd (buyIngredient exampleHost 1704067200000 \<lparr>ingredientId = ''a1'', purchasedQty = PosInf\<rparr>
     (exampleDB [])) = exampleDB []"
proof (intro conjI)
  show "buyIngredient exampleHost 1704067200000 \<lparr>ingredientId = ''a1'', purchasedQty = Fin 0\<rparr>
     (exampleDB []) =
     (failureResult ''Purchase quantity must be greater than 0'', exampleDB [])"
    by (simp add: buyIngredient_def js_le_def isNaN_def)
  show "buyIngredient exampleHost 1704067200000 \<lparr>ingredientId = ''a1'', purchasedQty = NaN\<rparr>
     (exampleDB []) =
     (failureResult ''Purchase quantity must be a valid number'', exampleDB [])"
    by (simp add: buyIngredient_def js_le_def isNaN_def)
  show "snd (buyIngredient exampleHost 1704067200000 \<lparr>ingredientId = ''a1'', purchasedQty = PosInf\<rparr>
     (exampleDB [])) = exampleDB []"
    using buyIngredient_rejects_quantity
      [of "\<lparr>ingredientId = ''a1'', purchasedQty = PosInf\<rparr>" exampleHost 1704067200000 "exampleDB []"]
    by auto
qed

subsection \<open>Buying: unknown identifier\<close>

text \<open>
  Claim C6.  For a finite \<open>purchasedQty > 0\<close> and an \<open>ingredientId\<close> that is not in the
  table, \<open>buyIngredient\<close> returns a failure result, with \<open>success\<close> false, an \<open>error\<close> that
  is not \<open>null\<close> and the three payload fields \<open>null\<close>, and the table after the call is the
  table before it.  This holds whatever the storage engine answers; when it answers the
  read, the message is \<open>Ingredient not found\<close>.
\<close>

theorem buyIngredient_not_found:
  assumes "purchasedQty input = Fin p" and "0 < p"
    and "ingredients db (ingredientId input) = None"
  shows "\<exists>msg db'.
     buyIngredient h clock input db =
       (\<lparr>success = False, error = Some msg, updatedIngredient = None,
         previousStockQty = None, newStockQty = None\<rparr>, db') \<and>
     ingredients db' = ingredients db \<and>
     (succeed 1 db \<longrightarrow> msg = ''Ingredient not found'')"
proof (cases "succeed 1 db")
  case True
  then show ?thesis using assms
    by (simp add: buyIngredient_def failureResult_def js_le_def isNaN_def transaction_def
        buyIngredient_body_def await_def Table_get_succeed)
next
  case False
  then obtain e fs where "failures db = Some e # fs"
    by (cases "failures db") (auto simp: succeed_def)
  then show ?thesis using assms False
    by (simp add: buyIngredient_def failureResult_def js_le_def isNaN_def transaction_def
        buyIngredient_body_def await_def Table_get_def request_fail)
qed

text \<open>The theorem at an identifier that the example table does not hold.\<close>

theorem buyIngredient_not_found_witness:
  "fst (buyIngredient exampleHost 1704067200000 \<lparr>ingredientId = ''zz'', purchasedQty = Fin 5\<rparr>
     (exampleDB [])) = failureResult ''Ingredient not found'' \<and>
   ingredients (snd (buyIngredient exampleHost 1704067200000
      \<lparr>ingredientId = ''zz'', purchasedQty = Fin 5\<rparr> (exampleDB []))) = [''a1'' \<mapsto> neverBought]"
  using buyIngredient_not_found
    [of "\<lparr>ingredientId = ''zz'', purchasedQty = Fin 5\<rparr>" 5 "exampleDB []" exampleHost 1704067200000]
  by (auto simp: exampleDB_def succeed_def failureResult_def)

subsection \<open>Buying: success\<close>

lemma applyChanges_buy:
  "applyChanges \<lparr>Partial_Ingredient.name = None, unit = None, stockQty = Some q,
      shelfLifeDays = None, purchasedAt = Some (Some s)\<rparr> ing =
   ing\<lparr>Ingredient.stockQty := q, Ingredient.purchasedAt := Some s\<rparr>"
  by (cases ing) (simp add: applyChanges_def)

lemma buyIngredient_body_succeed:
  assumes "ingredients db key = Some ing" and "succeed 3 db"
  shows "buyIngredient_body h clock key qty db =
     (Inr (Some (bought h clock qty ing), Ingredient.stockQty ing,
           js_add (Ingredient.stockQty ing) qty),
      (answered (answered (answered db)))
        \<lparr>ingredients := (ingredients db)(key \<mapsto> bought h clock qty ing)\<rparr>)"
proof -
  have s3: "succeed (Suc 2) db" using assms(2) by (simp add: numeral_3_eq_3 numeral_2_eq_2)
  have s2: "succeed (Suc 1) (answered db)" using succeed_answered [OF s3] by (simp add: numeral_2_eq_2)
  have s1: "succeed (Suc 0) (answered (answered db))" using succeed_answered [OF s2] by simp
  let ?c = "\<lparr>Partial_Ingredient.name = None, unit = None,
               stockQty = Some (js_add (Ingredient.stockQty ing) qty), shelfLifeDays = None,
               purchasedAt = Some (Some (toISOString h clock))\<rparr>"
  have g1: "Table_get key db = (Inr (Some ing), answered db)"
    using Table_get_succeed [OF s3] assms(1) by simp
  have u: "Table_update key ?c (answered db) =
      (Inr (if bought h clock qty ing = ing then 0 else 1),
       (answered (answered db))\<lparr>ingredients := (ingredients db)(key \<mapsto> bought h clock qty ing)\<rparr>)"
    using Table_update_succeed [OF s2, of key ing ?c] assms(1)
    by (simp add: applyChanges_buy bought_def)
  have s1': "succeed (Suc 0) ((answered (answered db))\<lparr>ingredients := (ingredients db)(key \<mapsto> bought h clock qty ing)\<rparr>)"
    using s1 by simp
  have g2: "Table_get key ((answered (answered db))\<lparr>ingredients := (ingredients db)(key \<mapsto> bought h clock qty ing)\<rparr>)
      = (Inr (Some (bought h clock qty ing)),
         (answered (answered (answered db)))\<lparr>ingredients := (ingredients db)(key \<mapsto> bought h clock qty ing)\<rparr>)"
    unfolding Table_get_succeed [OF s1'] by (simp add: answered_def)
  show ?thesis
    by (simp add: buyIngredient_body_def await_def g1 Let_def u g2)
qed

text \<open>
  Claim C7.  Let the table hold the ingredient \<open>ing\<close> with stock quantity \<open>q\<close> under
  \<open>ingredientId\<close>, let \<open>purchasedQty\<close> be a finite \<open>p > 0\<close>, and let the storage engine
  reject none of the four requests of the purchase (read, update, read, commit).  Then
  \<open>buyIngredient\<close> succeeds with \<open>previousStockQty = q\<close> and \<open>newStockQty = q + p\<close>, the
  sum of the two Numbers as \<open>+\<close> computes it; the table afterwards holds under that
  identifier the record \<open>ing\<close> with \<open>stockQty = q + p\<close> and \<open>purchasedAt\<close> the ISO string
  of the instant of the call, and is unchanged elsewhere; and \<open>updatedIngredient\<close> is that
  stored record.  For whole numbers \<open>q\<close> and \<open>p\<close> whose sum is below \<open>2^53\<close> in magnitude,
  \<open>q + p\<close> is the exact sum.
\<close>

theorem buyIngredient_success:
  assumes "ingredients db (ingredientId input) = Some ing"
    and "purchasedQty input = Fin p" and "0 < p" and "succeed 4 db"
    and "q = Ingredient.stockQty ing"
    and "ing' = ing\<lparr>Ingredient.stockQty := js_add q (Fin p),
                     Ingredient.purchasedAt := Some (toISOString h clock)\<rparr>"
  shows "(\<exists>db'.
     buyIngredient h clock input db =
       (\<lparr>success = True, error = None, updatedIngredient = Some ing',
         previousStockQty = Some q, newStockQty = Some (js_add q (Fin p))\<rparr>, db') \<and>
     ingredients db' = (ingredients db)(ingredientId input \<mapsto> ing')) \<and>
     (\<forall>i j. q = Fin (of_int i) \<and> p = of_int j \<and> \<bar>i + j\<bar> < 2 ^ 53 \<longrightarrow>
        js_add q (Fin p) = Fin (of_int (i + j)))"
proof -
  have i: "ing' = bought h clock (Fin p) ing" using assms(5,6) by (simp add: bought_def)
  let ?db3 = "(answered (answered (answered db)))
        \<lparr>ingredients := (ingredients db)(ingredientId input \<mapsto> ing')\<rparr>"
  have s4: "succeed (Suc (Suc (Suc (Suc 0)))) db" using assms(4) by (simp add: eval_nat_numeral)
  have s3: "succeed 3 db" using assms(4) by (rule succeed_mono [rotated]) simp
  have "succeed (Suc 0) (answered (answered (answered db)))"
    using s4 by (intro succeed_answered)
  then have c: "request ?db3 = (None, answered ?db3)"
    by (intro request_succeed) simp
  have b: "buyIngredient_body h clock (ingredientId input) (Fin p) db =
     (Inr (Some ing', q, js_add q (Fin p)), ?db3)"
    unfolding i assms(5) using assms(1) s3 by (rule buyIngredient_body_succeed)
  have "buyIngredient h clock input db =
       (\<lparr>success = True, error = None, updatedIngredient = Some ing',
         previousStockQty = Some q, newStockQty = Some (js_add q (Fin p))\<rparr>, answered ?db3)"
    using assms(2,3) by (simp add: buyIngredient_def js_le_def isNaN_def transaction_def b c)
  moreover have "ingredients (answered ?db3) = (ingredients db)(ingredientId input \<mapsto> ing')"
    by simp
  moreover have "js_add q (Fin p) = Fin (of_int (i + j))"
    if "q = Fin (of_int i) \<and> p = of_int j \<and> \<bar>i + j\<bar> < 2 ^ 53" for i j
    using that fl_of_int [of "i + j"] by simp
  ultimately show ?thesis by blast
qed

text \<open>
  The theorem for the purchase of 5 of an ingredient with \<open>stockQty = 2\<close> and
  \<open>purchasedAt = null\<close>: \<open>previousStockQty = 2\<close>, \<open>newStockQty = 7\<close>.
\<close>

theorem buyIngredient_success_witness:
  "fst (buyIngredient exampleHost 1704067200000 \<lparr>ingredientId = ''a1'', purchasedQty = Fin 5\<rparr>
     (exampleDB [])) =
     \<lparr>success = True, error = None,
      updatedIngredient =
        Some (neverBought\<lparr>Ingredient.stockQty := Fin 7,
                Ingredient.purchasedAt := Some ''2024-01-01T00:00:00.000Z''\<rparr>),
      previousStockQty = Some (Fin 2), newStockQty = Some (Fin 7)\<rparr> \<and>
   ingredients (snd (buyIngredient exampleHost 1704067200000
      \<lparr>ingredientId = ''a1'', purchasedQty = Fin 5\<rparr> (exampleDB []))) =
     [''a1'' \<mapsto> neverBought\<lparr>Ingredient.stockQty := Fin 7,
                Ingredient.purchasedAt := Some ''2024-01-01T00:00:00.000Z''\<rparr>]"
proof -
  let ?ing' = "neverBought\<lparr>Ingredient.stockQty := js_add (Fin 2) (Fin 5),
                Ingredient.purchasedAt := Some (toISOString exampleHost 1704067200000)\<rparr>"
  have 1: "ingredients (exampleDB []) (ingredientId \<lparr>ingredientId = ''a1'', purchasedQty = Fin 5\<rparr>)
      = Some neverBought"
    by (simp add: exampleDB_def)
  have 2: "succeed 4 (exampleDB [])" by (simp add: succeed_def exampleDB_def)
  have 3: "Fin 2 = Ingredient.stockQty neverBought" by (simp add: neverBought_def)
  have 5: "purchasedQty \<lparr>ingredientId = ''a1'', purchasedQty = Fin 5\<rparr> = Fin 5" by simp
  have 6: "(0::real) < 5" by simp
  note t = buyIngredient_success [where p = 5 and ing' = ?ing' and h = exampleHost
      and clock = 1704067200000, OF 1 5 6 2 3 refl]
  have "(Fin 2 = Fin (of_int 2) \<and> (5::real) = of_int 5 \<and> \<bar>2 + 5 :: int\<bar> < 2 ^ 53) \<longrightarrow>
      js_add (Fin 2) (Fin 5) = Fin (of_int (2 + 5))"
    using t by blast
  then have s: "js_add (Fin 2) (Fin 5) = Fin 7" by simp
  have "toISOString exampleHost 1704067200000 = ''2024-01-01T00:00:00.000Z''"
    by (simp add: exampleHost_def)
  then show ?thesis using t unfolding s by (auto simp: exampleDB_def)
qed

subsection \<open>Errors at the boundary of the action layer\<close>

lemma buyIngredient_shape:
  "\<exists>r db'. buyIngredient h clock input db = (r, db') \<and>
      (success r \<longleftrightarrow> error r = None) \<and>
      (\<not> success r \<longrightarrow> updatedIngredient r = None \<and> previousStockQty r = None \<and>
          newStockQty r = None \<and> ingredients db' = ingredients db)"
  by (auto simp: buyIngredient_def failureResult_def transaction_def
      split: prod.splits sum.splits option.splits)

lemma buyIngredient_catch:
  assumes "purchasedQty input = Fin p" and "0 < p"
    and "transaction (buyIngredient_body h clock (ingredientId input) (purchasedQty input)) db
           = (Inl e, db1)"
  shows "buyIngredient h clock input db = (failureResult (errorMessage e), db1)"
  using assms by (simp add: buyIngredient_def js_le_def isNaN_def)

lemma crud_propagate:
  assumes "failures db = Some e # fs"
  shows "fst (createIngredient uuid data db) = Inl e"
    and "fst (updateIngredient ident pdata db) = Inl e"
    and "fst (deleteIngredient ident db) = Inl e"
  using assms
  by (simp_all add: createIngredient_def updateIngredient_def deleteIngredient_def await_def
      Table_add_def Table_get_def request_fail Let_def)

text \<open>
  Claim C8, as the code has it.  \<open>buyIngredient\<close> returns a result for every input and
  every behaviour of the storage engine: \<open>success\<close> holds exactly when \<open>error\<close> is \<open>null\<close>,
  and on failure the payload fields are \<open>null\<close> and the table is as before the call.
  When its transaction is rejected with the value \<open>e\<close>, the result is the failure result
  whose \<open>error\<close> is the message of \<open>e\<close> (\<open>Unknown error occurred\<close> when \<open>e\<close> is not an
  \<open>Error\<close>); so it is when the engine rejects the first request.  \<open>createIngredient\<close>,
  \<open>updateIngredient\<close> and \<open>deleteIngredient\<close> have no such boundary: when the engine
  rejects their first request with \<open>e\<close>, their promise is rejected with \<open>e\<close>.
\<close>

theorem buyIngredient_never_throws:
  "(\<exists>r db'. buyIngredient h clock input db = (r, db') \<and>
      (success r \<longleftrightarrow> error r = None) \<and>
      (\<not> success r \<longrightarrow> updatedIngredient r = None \<and> previousStockQty r = None \<and>
          newStockQty r = None \<and> ingredients db' = ingredients db)) \<and>
   (purchasedQty input = Fin p \<and> 0 < p \<and>
    transaction (buyIngredient_body h clock (ingredientId input) (purchasedQty input)) db
      = (Inl e, db1) \<longrightarrow>
      buyIngredient h clock input db =
        (\<lparr>success = False, error = Some (errorMessage e), updatedIngredient = None,
          previousStockQty = None, newStockQty = None\<rparr>, db1)) \<and>
   (purchasedQty input = Fin p \<and> 0 < p \<and> failures db = Some e # fs \<longrightarrow>
      error (fst (buyIngredient h clock input db)) = Some (errorMessage e)) \<and>
   (failures db = Some e # fs \<longrightarrow>
      fst (createIngredient uuid data db) = Inl e \<and>
      fst (updateIngredient ident pdata db) = Inl e \<and>
      fst (deleteIngredient ident db) = Inl e)"
proof (intro conjI impI)
  show "\<exists>r db'. buyIngredient h clock input db = (r, db') \<and>
      (success r \<longleftrightarrow> error r = None) \<and>
      (\<not> success r \<longrightarrow> updatedIngredient r = None \<and> previousStockQty r = None \<and>
          newStockQty r = None \<and> ingredients db' = ingredients db)"
    by (rule buyIngredient_shape)
next
  assume "purchasedQty input = Fin p \<and> 0 < p \<and>
    transaction (buyIngredient_body h clock (ingredientId input) (purchasedQty input)) db
      = (Inl e, db1)"
  then show "buyIngredient h clock input db =
        (\<lparr>success = False, error = Some (errorMessage e), updatedIngredient = None,
          previousStockQty = None, newStockQty = None\<rparr>, db1)"
    using buyIngredient_catch [of input p h clock db e db1] by (auto simp: failureResult_def)
next
  assume "purchasedQty input = Fin p \<and> 0 < p \<and> failures db = Some e # fs"
  then show "error (fst (buyIngredient h clock input db)) = Some (errorMessage e)"
    by (simp add: buyIngredient_def js_le_def isNaN_def transaction_def buyIngredient_body_def
        await_def Table_get_def request_fail failureResult_def)
next
  assume f: "failures db = Some e # fs"
  show "fst (createIngredient uuid data db) = Inl e" using f by (rule crud_propagate)
  show "fst (updateIngredient ident pdata db) = Inl e" using f by (rule crud_propagate)
  show "fst (deleteIngredient ident db) = Inl e" using f by (rule crud_propagate)
qed

text \<open>
  The theorem for a purchase whose update is rejected with a quota error, and for a
  deletion whose read is rejected with a value that is not an \<open>Error\<close>.
\<close>

theorem buyIngredient_never_throws_witness:
  "buyIngredient exampleHost 1704067200000 \<lparr>ingredientId = ''a1'', purchasedQty = Fin 5\<rparr>
     (exampleDB [None, Some (Error ''QuotaExceededError'')]) =
     (failureResult ''QuotaExceededError'',
      \<lparr>ingredients = [''a1'' \<mapsto> neverBought], failures = [], requests = 2\<rparr>) \<and>
   fst (deleteIngredient ''a1'' (exampleDB [Some NonError])) = Inl NonError"
proof -
  let ?db = "exampleDB [None, Some (Error ''QuotaExceededError'')]"
  let ?input = "\<lparr>ingredientId = ''a1'', purchasedQty = Fin 5\<rparr>"
  have t: "transaction (buyIngredient_body exampleHost 1704067200000 (ingredientId ?input)
              (purchasedQty ?input)) ?db =
        (Inl (Error ''QuotaExceededError''),
         \<lparr>ingredients = [''a1'' \<mapsto> neverBought], failures = [], requests = 2\<rparr>)"
    by (simp add: transaction_def buyIngredient_body_def await_def Table_get_def Table_update_def
        request_def exampleDB_def Let_def)
  have f: "failures (exampleDB [Some NonError]) = Some NonError # []"
    by (simp add: exampleDB_def)
  show ?thesis
    using buyIngredient_never_throws [where h = exampleHost and clock = 1704067200000
        and input = ?input and db = ?db and p = 5 and e = "Error ''QuotaExceededError''"
        and ?db1.0 = "\<lparr>ingredients = [''a1'' \<mapsto> neverBought], failures = [], requests = 2\<rparr>"] t
      buyIngredient_never_throws [where db = "exampleDB [Some NonError]" and e = NonError
        and fs = "[]" and ident = "''a1''"] f
    by (simp add: failureResult_def)
qed

text \<open>
  Claim C8 as stated fails for \<open>createIngredient\<close>: when the storage engine rejects the
  insertion, the promise of \<open>createIngredient\<close> is rejected with the engine's error.
\<close>

theorem action_layer_counterexample:
  "fst (createIngredient ''u1''
         \<lparr>IngredientFormData.name = '' Rice '', unit = ''kg'', stockQty = Fin 1,
          shelfLifeDays = Fin 30\<rparr>
         (exampleDB [Some (Error ''QuotaExceededError'')])) =
   Inl (Error ''QuotaExceededError'')"
  by (simp add: createIngredient_def await_def Table_add_def request_def exampleDB_def Let_def)

subsection \<open>Updating\<close>

lemma applyChanges_update:
  "applyChanges
     \<lparr>Partial_Ingredient.name = map_option trim (Partial_IngredientFormData.name data),
      unit = map_option trim (Partial_IngredientFormData.unit data),
      stockQty = Partial_IngredientFormData.stockQty data,
      shelfLifeDays = Partial_IngredientFormData.shelfLifeDays data,
      purchasedAt = None\<rparr> ing = updated data ing"
  by (cases ing) (simp add: applyChanges_def updated_def split: option.splits)

text \<open>
  Claim C9.  Let the storage engine reject none of the requests of the update (one read
  for an absent identifier; read, update, read for a present one).  On an identifier
  that the table does not hold, \<open>updateIngredient\<close> returns \<open>null\<close> and leaves the table
  unchanged.  On an identifier under which the table holds \<open>ing\<close>, it stores and
  returns the record that has the trimmed \<open>name\<close> and \<open>unit\<close>, the \<open>stockQty\<close> and the
  \<open>shelfLifeDays\<close> of the partial input where the input has them and those of \<open>ing\<close>
  where it has not, and the \<open>id\<close> and \<open>purchasedAt\<close> of \<open>ing\<close>; the table is unchanged
  elsewhere.
\<close>

theorem updateIngredient_frame:
  "(ingredients db ident = None \<and> succeed 1 db \<longrightarrow>
      (\<exists>db'. updateIngredient ident data db = (Inr None, db') \<and>
             ingredients db' = ingredients db)) \<and>
   (ingredients db ident = Some ing \<and> succeed 3 db \<longrightarrow>
      (\<exists>db'. updateIngredient ident data db = (Inr (Some (updated data ing)), db') \<and>
             ingredients db' = (ingredients db)(ident \<mapsto> updated data ing) \<and>
             id' (updated data ing) = id' ing \<and>
             Ingredient.purchasedAt (updated data ing) = Ingredient.purchasedAt ing \<and>
             Ingredient.name (updated data ing) =
               (case Partial_IngredientFormData.name data of
                  None \<Rightarrow> Ingredient.name ing | Some v \<Rightarrow> trim v) \<and>
             Ingredient.unit (updated data ing) =
               (case Partial_IngredientFormData.unit data of
                  None \<Rightarrow> Ingredient.unit ing | Some v \<Rightarrow> trim v) \<and>
             Ingredient.stockQty (updated data ing) =
               (case Partial_IngredientFormData.stockQty data of
                  None \<Rightarrow> Ingredient.stockQty ing | Some v \<Rightarrow> v) \<and>
             Ingredient.shelfLifeDays (updated data ing) =
               (case Partial_IngredientFormData.shelfLifeDays data of
                  None \<Rightarrow> Ingredient.shelfLifeDays ing | Some v \<Rightarrow> Some v)))"
proof (intro conjI impI)
  assume a: "ingredients db ident = None \<and> succeed 1 db"
  then have "succeed (Suc 0) db" by simp
  then show "\<exists>db'. updateIngredient ident data db = (Inr None, db') \<and>
             ingredients db' = ingredients db"
    using a by (simp add: updateIngredient_def await_def Table_get_succeed)
next
  assume a: "ingredients db ident = Some ing \<and> succeed 3 db"
  let ?u = "updated data ing"
  have s3: "succeed (Suc 2) db" using a by (simp add: numeral_3_eq_3 numeral_2_eq_2)
  have s2: "succeed (Suc 1) (answered db)" using succeed_answered [OF s3] by (simp add: numeral_2_eq_2)
  have s1: "succeed (Suc 0) ((answered (answered db))\<lparr>ingredients := (ingredients db)(ident \<mapsto> ?u)\<rparr>)"
    using succeed_answered [OF s2] by simp
  have g1: "Table_get ident db = (Inr (Some ing), answered db)"
    using Table_get_succeed [OF s3] a by simp
  have u: "Table_update ident
     \<lparr>Partial_Ingredient.name = map_option trim (Partial_IngredientFormData.name data),
      unit = map_option trim (Partial_IngredientFormData.unit data),
      stockQty = Partial_IngredientFormData.stockQty data,
      shelfLifeDays = Partial_IngredientFormData.shelfLifeDays data,
      purchasedAt = None\<rparr> (answered db) =
      (Inr (if ?u = ing then 0 else 1),
       (answered (answered db))\<lparr>ingredients := (ingredients db)(ident \<mapsto> ?u)\<rparr>)"
    using Table_update_succeed [OF s2, of ident ing] a
    by (simp add: applyChanges_update)
  have g2: "Table_get ident ((answered (answered db))\<lparr>ingredients := (ingredients db)(ident \<mapsto> ?u)\<rparr>)
      = (Inr (Some ?u),
         answered ((answered (answered db))\<lparr>ingredients := (ingredients db)(ident \<mapsto> ?u)\<rparr>))"
    unfolding Table_get_succeed [OF s1] by simp
  have "updateIngredient ident data db = (Inr (Some ?u),
         answered ((answered (answered db))\<lparr>ingredients := (ingredients db)(ident \<mapsto> ?u)\<rparr>))"
    by (simp add: updateIngredient_def await_def g1 Let_def u g2)
  then show "\<exists>db'. updateIngredient ident data db = (Inr (Some ?u), db') \<and>
             ingredients db' = (ingredients db)(ident \<mapsto> ?u) \<and>
             id' ?u = id' ing \<and>
             Ingredient.purchasedAt ?u = Ingredient.purchasedAt ing \<and>
             Ingredient.name ?u =
               (case Partial_IngredientFormData.name data of
                  None \<Rightarrow> Ingredient.name ing | Some v \<Rightarrow> trim v) \<and>
             Ingredient.unit ?u =
               (case Partial_IngredientFormData.unit data of
                  None \<Rightarrow> Ingredient.unit ing | Some v \<Rightarrow> trim v) \<and>
             Ingredient.stockQty ?u =
               (case Partial_IngredientFormData.stockQty data of
                  None \<Rightarrow> Ingredient.stockQty ing | Some v \<Rightarrow> v) \<and>
             Ingredient.shelfLifeDays ?u =
               (case Partial_IngredientFormData.shelfLifeDays data of
                  None \<Rightarrow> Ingredient.shelfLifeDays ing | Some v \<Rightarrow> Some v)"
    by (simp add: updated_def)
qed

text \<open>
  The theorem for \<open>update(id, {stockQty: 10})\<close> on an absent identifier, and for an
  update of name and stock quantity on a present one.
\<close>

theorem updateIngredient_frame_witness:
  "fst (updateIngredient ''zz''
         \<lparr>Partial_IngredientFormData.name = None, unit = None, stockQty = Some (Fin 10),
          shelfLifeDays = None\<rparr> (exampleDB [])) = Inr None \<and>
   ingredients (snd (updateIngredient ''zz''
         \<lparr>Partial_IngredientFormData.name = None, unit = None, stockQty = Some (Fin 10),
          shelfLifeDays = None\<rparr> (exampleDB []))) = [''a1'' \<mapsto> neverBought] \<and>
   fst (updateIngredient ''a1''
         \<lparr>Partial_IngredientFormData.name = Some ''  Oat milk '', unit = None,
          stockQty = Some (Fin 10), shelfLifeDays = None\<rparr> (exampleDB [])) =
     Inr (Some (neverBought\<lparr>Ingredient.name := ''Oat milk'', Ingredient.stockQty := Fin 10\<rparr>))"
proof -
  have t: "trim ''  Oat milk '' = ''Oat milk''"
    by (simp add: trim_def isWhiteSpace_def)
  have s1: "succeed 1 (exampleDB [])" and s3: "succeed 3 (exampleDB [])"
    by (simp_all add: succeed_def exampleDB_def)
  have a: "ingredients (exampleDB []) ''zz'' = None"
    and b: "ingredients (exampleDB []) ''a1'' = Some neverBought"
    by (simp_all add: exampleDB_def)
  have u: "updated \<lparr>Partial_IngredientFormData.name = Some ''  Oat milk '', unit = None,
          stockQty = Some (Fin 10), shelfLifeDays = None\<rparr> neverBought =
        neverBought\<lparr>Ingredient.name := ''Oat milk'', Ingredient.stockQty := Fin 10\<rparr>"
    by (simp add: updated_def t neverBought_def)
  show ?thesis
    using updateIngredient_frame [where db = "exampleDB []" and ident = "''zz''" and data =
        "\<lparr>Partial_IngredientFormData.name = None, unit = None, stockQty = Some (Fin 10),
          shelfLifeDays = None\<rparr>"] s1 a
      updateIngredient_frame [where db = "exampleDB []" and ident = "''a1''" and ing = neverBought
        and data = "\<lparr>Partial_IngredientFormData.name = Some ''  Oat milk '', unit = None,
          stockQty = Some (Fin 10), shelfLifeDays = None\<rparr>"] s3 b u
    by (auto simp: exampleDB_def)
qed

end
